theory Spec2Isabelle
  imports Complex_Main "HOL-Library.Word" "HOL-Library.AList" "HOL-Library.Monad_Syntax"
begin

unbundle bit_operations_syntax

section \<open>Bytes and strings\<close>

text \<open>
  A Go \<open>string\<close> and a \<open>[]byte\<close> are sequences of bytes. A string is modelled as a
  \<open>char list\<close> (an Isabelle \<open>char\<close> is one byte), a byte slice as a list of 8-bit words.
\<close>

type_synonym byte = "8 word"

definition byte_of :: "char \<Rightarrow> byte" where
  "byte_of c = of_char c"

section \<open>Sentence codec\<close>

subsection \<open>UBX frames: \<open>chksumUBX\<close>, \<open>makeUBXCFG\<close>\<close>

text \<open>
  \<open>chksumUBX\<close> keeps the two running sums in \<open>ret[0]\<close> and \<open>ret[1]\<close>, both of type
  \<open>byte\<close>, so both additions wrap at 256.
\<close>

fun chksumUBX_loop :: "byte list \<Rightarrow> byte \<times> byte \<Rightarrow> byte \<times> byte" where
  "chksumUBX_loop [] ret = ret"
| "chksumUBX_loop (b # msg) (r0, r1) = chksumUBX_loop msg (r0 + b, r1 + (r0 + b))"

definition chksumUBX :: "byte list \<Rightarrow> byte list" where
  "chksumUBX msg = (case chksumUBX_loop msg (0, 0) of (r0, r1) \<Rightarrow> [r0, r1])"

definition makeUBXCFG :: "byte \<Rightarrow> byte \<Rightarrow> 16 word \<Rightarrow> byte list \<Rightarrow> byte list" where
  "makeUBXCFG cls msgid msglen msg =
     (let ret = [0xB5, 0x62, cls, msgid,
                 ucast (msglen AND 0xFF), ucast (drop_bit 8 msglen AND 0xFF)];
          ret = ret @ msg;
          chk = chksumUBX (drop 2 ret);
          ret = ret @ [chk ! 0];
          ret = ret @ [chk ! 1]
      in ret)"

text \<open>
  The specification's side of the round-trip law. \<open>fletcher8\<close> follows the spec's words
  (\<open>ck_a += b; ck_b += ck_a\<close>, both modulo 256) on natural numbers; \<open>unframe\<close> strips the
  two sync bytes and the two checksum bytes of a frame; \<open>checksum_bytes\<close> are its last two
  bytes.
\<close>

definition fletcher8_step :: "nat \<times> nat \<Rightarrow> byte \<Rightarrow> nat \<times> nat" where
  "fletcher8_step ck b =
     (let ck_a = (fst ck + unat b) mod 256; ck_b = (snd ck + ck_a) mod 256 in (ck_a, ck_b))"

definition fletcher8 :: "byte list \<Rightarrow> byte list" where
  "fletcher8 bs = (let ck = foldl fletcher8_step (0, 0) bs in [of_nat (fst ck), of_nat (snd ck)])"

definition unframe :: "byte list \<Rightarrow> byte list" where
  "unframe f = take (length f - 4) (drop 2 f)"

definition checksum_bytes :: "byte list \<Rightarrow> byte list" where
  "checksum_bytes f = drop (length f - 2) f"

subsection \<open>NMEA sentences: \<open>makeNMEACmd\<close>, \<open>validateNMEAChecksum\<close>\<close>

text \<open>
  Both checksum loops are written \<open>for i := range s\<close> over a string. Go's \<open>range\<close> over a
  string yields the index of the first byte of each UTF-8 encoded code point; after a byte
  that starts no valid encoding it advances by one byte. \<open>rune_width\<close> is the number of
  bytes the iteration advances by at the head of a non-empty string (bytes given as
  numbers), following the decoder of the Go runtime: overlong encodings, surrogates and
  code points above \<open>0x10FFFF\<close> are invalid. For an ASCII string every byte is visited.
\<close>

definition locb_hicb :: "nat \<Rightarrow> bool" where
  "locb_hicb b = (0x80 \<le> b \<and> b \<le> 0xBF)"

fun rune_width :: "nat list \<Rightarrow> nat" where
  "rune_width [] = 1"
| "rune_width (b0 # s) =
     (if b0 < 0x80 then 1
      else if 0xC0 \<le> b0 \<and> b0 < 0xE0 then
        (case s of
           b1 # _ \<Rightarrow>
             if locb_hicb b1 \<and> 0x7F < (b0 mod 32) * 64 + b1 mod 64 then 2 else 1
         | _ \<Rightarrow> 1)
      else if 0xE0 \<le> b0 \<and> b0 < 0xF0 then
        (case s of
           b1 # b2 # _ \<Rightarrow>
             (let r = (b0 mod 16) * 4096 + (b1 mod 64) * 64 + b2 mod 64
              in if locb_hicb b1 \<and> locb_hicb b2 \<and> 0x7FF < r \<and> \<not> (0xD800 \<le> r \<and> r \<le> 0xDFFF)
                 then 3 else 1)
         | _ \<Rightarrow> 1)
      else if 0xF0 \<le> b0 \<and> b0 < 0xF8 then
        (case s of
           b1 # b2 # b3 # _ \<Rightarrow>
             (let r = (b0 mod 8) * 262144 + (b1 mod 64) * 4096 + (b2 mod 64) * 64 + b3 mod 64
              in if locb_hicb b1 \<and> locb_hicb b2 \<and> locb_hicb b3 \<and> 0xFFFF < r \<and> r \<le> 0x10FFFF
                 then 4 else 1)
         | _ \<Rightarrow> 1)
      else 1)"

text \<open>
  \<open>xor_range s chk\<close> is the loop \<open>for i := range s { chk = chk ^ byte(s[i]) }\<close>.
\<close>

function xor_range :: "string \<Rightarrow> byte \<Rightarrow> byte" where
  "xor_range [] chk = chk"
| "xor_range (c # s) chk =
     xor_range (drop (rune_width (map of_char (c # s)) - 1) s) (chk XOR byte_of c)"
  by pat_completeness auto
termination
  by (relation "measure (\<lambda>(s, chk). length s)") auto

text \<open>The verb \<open>%02x\<close> of \<open>fmt.Sprintf\<close> on a byte: two lower-case hexadecimal digits.\<close>

definition hexdigit :: "nat \<Rightarrow> char" where
  "hexdigit n = ''0123456789abcdef'' ! n"

definition Sprintf_02x :: "byte \<Rightarrow> string" where
  "Sprintf_02x b = [hexdigit (unat b div 16), hexdigit (unat b mod 16)]"

definition makeNMEACmd :: "string \<Rightarrow> string" where
  "makeNMEACmd cmd =
     (let chk_sum = xor_range cmd 0
      in ''$'' @ cmd @ ''*'' @ Sprintf_02x chk_sum @ [CHR 0x0D, CHR 0x0A])"

text \<open>
  The functions of package \<open>strings\<close> that the parser calls, for the separators it passes
  (one-character strings). \<open>Split\<close> always returns at least one piece.
\<close>

definition HasPrefix :: "string \<Rightarrow> string \<Rightarrow> bool" where
  "HasPrefix s p = (take (length p) s = p)"

definition TrimPrefix :: "string \<Rightarrow> string \<Rightarrow> string" where
  "TrimPrefix s p = (if HasPrefix s p then drop (length p) s else s)"

definition Contains :: "string \<Rightarrow> char \<Rightarrow> bool" where
  "Contains s c = (c \<in> set s)"

fun Split :: "string \<Rightarrow> char \<Rightarrow> string list" where
  "Split [] sep = [[]]"
| "Split (c # s) sep =
     (if c = sep then [] # Split s sep
      else (case Split s sep of w # ws \<Rightarrow> (c # w) # ws | [] \<Rightarrow> [[c]]))"

text \<open>
  \<open>strconv.ParseUint(s, 16, 8)\<close>: a non-empty string of hexadecimal digits of either case,
  no sign, no prefix, whose value fits 8 bits; \<open>None\<close> stands for a returned error.
\<close>

definition hexval :: "char \<Rightarrow> nat option" where
  "hexval c =
     (let n = (of_char c :: nat)
      in if 48 \<le> n \<and> n \<le> 57 then Some (n - 48)
         else if 97 \<le> n \<and> n \<le> 102 then Some (n - 87)
         else if 65 \<le> n \<and> n \<le> 70 then Some (n - 55)
         else None)"

definition ParseUint_16_8 :: "string \<Rightarrow> byte option" where
  "ParseUint_16_8 s =
     (if s = [] then None
      else (case those (map hexval s) of
              None \<Rightarrow> None
            | Some ds \<Rightarrow>
                (let v = foldl (\<lambda>a d. 16 * a + d) 0 ds
                 in if v < 256 then Some (of_nat v) else None)))"

text \<open>
  \<open>validateNMEAChecksum\<close> returns the payload with \<open>true\<close>, or a message with \<open>false\<close>; the
  four kinds of failure are the constructors of \<open>nmea_error\<close>. The reads \<open>s_split[0]\<close> and
  \<open>s_split[1]\<close> stand behind the test that the sentence contains an asterisk
  (lemma \<open>Split_Contains_length\<close> below: they are in range).
\<close>

datatype nmea_error =
    Invalid_NMEA_message
  | Missing_checksum
  | Invalid_checksum
  | Checksum_failed byte byte

definition validateNMEAChecksum :: "string \<Rightarrow> nmea_error + string" where
  "validateNMEAChecksum s =
     (if \<not> (HasPrefix s ''$'' \<and> Contains s (CHR ''*'')) then Inl Invalid_NMEA_message
      else
        (let s_split = Split (TrimPrefix s ''$'') (CHR ''*'');
             s_out = s_split ! 0;
             s_cs = s_split ! 1
         in if length s_cs < 2 then Inl Missing_checksum
            else (case ParseUint_16_8 (take 2 s_cs) of
                    None \<Rightarrow> Inl Invalid_checksum
                  | Some cs \<Rightarrow>
                      (let cs_calc = xor_range s_out 0
                       in if cs_calc \<noteq> cs then Inl (Checksum_failed cs_calc cs)
                          else Inr s_out))))"

section \<open>Floating-point values\<close>

text \<open>
  A \<open>float32\<close> or \<open>float64\<close> value is a NaN, an infinity or a finite real number.
  Comparison is IEEE 754 comparison: exact on the values, and false whenever an operand is
  a NaN. Operations that round (parsing, arithmetic, conversion between widths) are not
  defined here; the parser takes them as parameters (record \<open>lib\<close> below).
\<close>

datatype gofloat = NaN | NegInf | Finite real | PosInf

fun float_lt :: "gofloat \<Rightarrow> gofloat \<Rightarrow> bool" where
  "float_lt (Finite x) (Finite y) = (x < y)"
| "float_lt (Finite x) PosInf = True"
| "float_lt NegInf (Finite y) = True"
| "float_lt NegInf PosInf = True"
| "float_lt _ _ = False"

text \<open>
  In \<open>accuracy < 92.6\<close> the operand \<open>accuracy\<close> is a \<open>float32\<close>, so Go converts the
  untyped constant to \<open>float32\<close>: the comparison is against the binary32 value nearest to
  the decimal. The constants 3, 10 and 30 are binary32 values themselves; 92.6, 185.2 and
  555.6 are not, and their binary32 values are the three below (24-bit significand times a
  power of two; lemma \<open>float32_constants_nearest\<close>).
\<close>

definition float32_92_6 :: real where
  "float32_92_6 = 12137267 / 2 ^ 17"

definition float32_185_2 :: real where
  "float32_185_2 = 12137267 / 2 ^ 16"

definition float32_555_6 :: real where
  "float32_555_6 = 9102950 / 2 ^ 14"

section \<open>Accuracy derivation: \<open>calculateNACp\<close>\<close>

definition calculateNACp :: "gofloat \<Rightarrow> 8 word" where
  "calculateNACp accuracy =
     (if float_lt accuracy (Finite 3) then 11
      else if float_lt accuracy (Finite 10) then 10
      else if float_lt accuracy (Finite 30) then 9
      else if float_lt accuracy (Finite float32_92_6) then 8
      else if float_lt accuracy (Finite float32_185_2) then 7
      else if float_lt accuracy (Finite float32_555_6) then 6
      else 0)"

section \<open>Data model\<close>

text \<open>
  Instants of the monotonic clock (\<open>stratuxClock\<close>) are integers: nanoseconds since the
  clock's start, which is also the zero value of a time stamp. A \<open>time.Duration\<close> is a
  number of nanoseconds. Wall-clock instants (\<open>GPSTime\<close>) are integers as well.
\<close>

type_synonym mono_time = int
type_synonym wall_time = int

definition Second :: int where
  "Second = 1000000000"

definition SAT_TYPE_UNKNOWN :: "8 word" where "SAT_TYPE_UNKNOWN = 0"
definition SAT_TYPE_GPS :: "8 word" where "SAT_TYPE_GPS = 1"
definition SAT_TYPE_GLONASS :: "8 word" where "SAT_TYPE_GLONASS = 2"
definition SAT_TYPE_GALILEO :: "8 word" where "SAT_TYPE_GALILEO = 3"
definition SAT_TYPE_BEIDOU :: "8 word" where "SAT_TYPE_BEIDOU = 4"
definition SAT_TYPE_SBAS :: "8 word" where "SAT_TYPE_SBAS = 10"

text \<open>
  \<open>Elevation\<close> and \<open>Azimuth\<close> are \<open>int16\<close> and \<open>Signal\<close> is \<open>int8\<close>: words read with
  \<open>sint\<close>.
\<close>

record SatelliteInfo =
  SatelliteNMEA :: "8 word"
  SatelliteID :: string
  Elevation :: "16 word"
  Azimuth :: "16 word"
  Signal :: "8 word"
  Type :: "8 word"
  TimeLastSolution :: mono_time
  TimeLastSeen :: mono_time
  TimeLastTracked :: mono_time
  InSolution :: bool

text \<open>The zero value of the struct: what \<open>var thisSatellite SatelliteInfo\<close> declares.\<close>

definition SatelliteInfo_zero :: SatelliteInfo where
  "SatelliteInfo_zero =
     \<lparr>SatelliteNMEA = 0, SatelliteID = [], Elevation = 0, Azimuth = 0, Signal = 0, Type = 0,
      TimeLastSolution = 0, TimeLastSeen = 0, TimeLastTracked = 0, InSolution = False\<rparr>"

text \<open>
  The GPS sub-record of \<open>SituationData\<close> (the fields guarded by \<open>mu_GPS\<close>). The attitude
  fields are written by the attitude and pressure loops only and are left out.
\<close>

record SituationData =
  LastFixSinceMidnightUTC :: gofloat
  Lat :: gofloat
  Lng :: gofloat
  Quality :: "8 word"
  HeightAboveEllipsoid :: gofloat
  GeoidSep :: gofloat
  Satellites :: "16 word"
  SatellitesTracked :: "16 word"
  SatellitesSeen :: "16 word"
  Accuracy :: gofloat
  NACp :: "8 word"
  Alt :: gofloat
  AccuracyVert :: gofloat
  GPSVertVel :: gofloat
  LastFixLocalTime :: mono_time
  TrueCourse :: gofloat
  GroundSpeed :: "16 word"
  LastGroundTrackTime :: mono_time
  GPSTime :: wall_time
  LastGPSTimeTime :: mono_time
  LastValidNMEAMessageTime :: mono_time
  LastValidNMEAMessage :: string

text \<open>
  The package-level variables the functions below read and write: \<open>mySituation\<close>; the map
  \<open>Satellites\<close> (here \<open>Satellites_map\<close>, since \<open>Satellites\<close> is also a field of the
  situation), an association list with one entry per key; the reading \<open>stratuxClock.Time\<close>
  of the monotonic clock; and \<open>globalStatus.GPS_connected\<close>.
\<close>

record state =
  mySituation :: SituationData
  Satellites_map :: "(string \<times> SatelliteInfo) list"
  stratuxClock_Time :: mono_time
  GPS_connected :: bool

text \<open>
  Modelled from the spec: \<open>stratuxClock.Since(t)\<close>, of the monotonic clock source that the
  specification names as an external collaborator (\<open>stratuxClock.{Time, Since(t)}\<close>): the
  time elapsed on that clock since \<open>t\<close>. A \<open>time.Duration\<close> saturates at about 292 years;
  the durations are compared with at most 15 seconds, which the saturation does not change.
\<close>

definition Since :: "state \<Rightarrow> mono_time \<Rightarrow> int" where
  "Since st t = stratuxClock_Time st - t"

text \<open>
  The state at start-up: every field of \<open>mySituation\<close> has its zero value, and
  \<open>initRY835AI\<close> has made the empty satellite map.
\<close>

definition SituationData_zero :: SituationData where
  "SituationData_zero =
     \<lparr>LastFixSinceMidnightUTC = Finite 0, Lat = Finite 0, Lng = Finite 0, Quality = 0,
      HeightAboveEllipsoid = Finite 0, GeoidSep = Finite 0, Satellites = 0,
      SatellitesTracked = 0, SatellitesSeen = 0, Accuracy = Finite 0, NACp = 0,
      Alt = Finite 0, AccuracyVert = Finite 0, GPSVertVel = Finite 0, LastFixLocalTime = 0,
      TrueCourse = Finite 0, GroundSpeed = 0, LastGroundTrackTime = 0, GPSTime = 0,
      LastGPSTimeTime = 0, LastValidNMEAMessageTime = 0, LastValidNMEAMessage = []\<rparr>"

definition initRY835AI :: state where
  "initRY835AI =
     \<lparr>mySituation = SituationData_zero, Satellites_map = [], stratuxClock_Time = 0,
      GPS_connected = False\<rparr>"

section \<open>Constellation tracker: \<open>updateConstellation\<close>\<close>

text \<open>
  The body of \<open>for svStr, thisSatellite := range Satellites\<close>. The loop deletes or
  reassigns only the key it is visiting, so it visits every entry the map held at the
  start once, with the value it had then: \<open>constellation_loop\<close> recurses over those
  entries and threads the map and the three counters, which are \<open>uint8\<close>.
\<close>

fun constellation_loop ::
  "state \<Rightarrow> (string \<times> SatelliteInfo) list \<Rightarrow> (string \<times> SatelliteInfo) list \<Rightarrow>
   8 word \<times> 8 word \<times> 8 word \<Rightarrow> (string \<times> SatelliteInfo) list \<times> 8 word \<times> 8 word \<times> 8 word" where
  "constellation_loop st [] m (sats, tracked, seen) = (m, sats, tracked, seen)"
| "constellation_loop st ((svStr, thisSatellite) # rest) m (sats, tracked, seen) =
     (if Since st (TimeLastTracked thisSatellite) > 10 * Second then
        constellation_loop st rest (AList.delete svStr m) (sats, tracked, seen)
      else
        (let tracked = tracked + 1;
             seen = (if 0 <s Signal thisSatellite then seen + 1 else seen);
             old = (Since st (TimeLastSolution thisSatellite) > 5 * Second);
             thisSatellite = (if old then thisSatellite\<lparr>InSolution := False\<rparr> else thisSatellite);
             m = (if old then AList.update svStr thisSatellite m else m);
             sats = (if InSolution thisSatellite then sats + 1 else sats)
         in constellation_loop st rest m (sats, tracked, seen)))"

definition updateConstellation :: "state \<Rightarrow> state" where
  "updateConstellation st =
     (case constellation_loop st (Satellites_map st) (Satellites_map st) (0, 0, 0) of
        (m, sats, tracked, seen) \<Rightarrow>
          st\<lparr>Satellites_map := m,
             mySituation := (mySituation st)
               \<lparr>Satellites := ucast sats, SatellitesTracked := ucast tracked,
                SatellitesSeen := ucast seen\<rparr>\<rparr>)"

text \<open>
  Two abbreviations for stating what the tracker does to one entry: \<open>fresh\<close> entries are
  kept, and \<open>aged\<close> is the entry as the tracker leaves it.
\<close>

definition fresh :: "state \<Rightarrow> SatelliteInfo \<Rightarrow> bool" where
  "fresh st s = (\<not> Since st (TimeLastTracked s) > 10 * Second)"

definition aged :: "state \<Rightarrow> SatelliteInfo \<Rightarrow> SatelliteInfo" where
  "aged st s =
     (if Since st (TimeLastSolution s) > 5 * Second then s\<lparr>InSolution := False\<rparr> else s)"

section \<open>Validity predicates\<close>

definition isGPSConnected :: "state \<Rightarrow> bool" where
  "isGPSConnected st = (Since st (LastValidNMEAMessageTime (mySituation st)) < 5 * Second)"

text \<open>\<open>isGPSValid\<close> returns its verdict and the state it leaves.\<close>

definition isGPSValid :: "state \<Rightarrow> bool \<times> state" where
  "isGPSValid st =
     (if Since st (LastFixLocalTime (mySituation st)) < 15 * Second \<and> GPS_connected st
         \<and> Quality (mySituation st) > 0
      then (True, st)
      else (False, st\<lparr>mySituation := (mySituation st)\<lparr>Quality := 0, Satellites := 0\<rparr>\<rparr>))"

definition isGPSGroundTrackValid :: "state \<Rightarrow> bool" where
  "isGPSGroundTrackValid st = (Since st (LastGroundTrackTime (mySituation st)) < 15 * Second)"

definition isGPSClockValid :: "state \<Rightarrow> bool" where
  "isGPSClockValid st = (Since st (LastGPSTimeTime (mySituation st)) < 15 * Second)"

section \<open>Library functions the parser calls\<close>

subsection \<open>\<open>strconv.Atoi\<close> and the verb \<open>%d\<close>\<close>

text \<open>
  A Go \<open>int\<close> is taken to be 64 bits wide. \<open>strconv.Atoi\<close>: an optional sign, then one or
  more decimal digits and nothing else; an error (\<open>None\<close>) on any other string and when
  the value does not fit an \<open>int\<close>. \<open>wrap_int\<close> is the wrap-around of \<open>int\<close> arithmetic.
\<close>

definition intSize :: nat where
  "intSize = 64"

definition wrap_int :: "int \<Rightarrow> int" where
  "wrap_int v = signed_take_bit (intSize - 1) v"

definition digit_val :: "char \<Rightarrow> nat option" where
  "digit_val c =
     (let n = (of_char c :: nat) in if 48 \<le> n \<and> n \<le> 57 then Some (n - 48) else None)"

definition Atoi :: "string \<Rightarrow> int option" where
  "Atoi s =
     (let neg = (case s of c # _ \<Rightarrow> c = CHR ''-'' | [] \<Rightarrow> False);
          ds = (case s of c # r \<Rightarrow> if c = CHR ''-'' \<or> c = CHR ''+'' then r else s | [] \<Rightarrow> [])
      in if ds = [] then None
         else (case those (map digit_val ds) of
                 None \<Rightarrow> None
               | Some vs \<Rightarrow>
                   (let n = int (foldl (\<lambda>a d. 10 * a + d) 0 vs);
                        v = (if neg then - n else n)
                    in if - (2 ^ (intSize - 1)) \<le> v \<and> v < 2 ^ (intSize - 1) then Some v
                       else None)))"

text \<open>The verb \<open>%d\<close> of \<open>fmt.Sprintf\<close> on an \<open>int\<close>.\<close>

fun digits :: "nat \<Rightarrow> string" where
  "digits n =
     (if n < 10 then [''0123456789'' ! n]
      else digits (n div 10) @ [''0123456789'' ! (n mod 10)])"

declare digits.simps [simp del]

definition Sprintf_d :: "int \<Rightarrow> string" where
  "Sprintf_d i = (if i < 0 then CHR ''-'' # digits (nat (- i)) else digits (nat i))"

subsection \<open>Floating-point arithmetic, formatting and date parsing\<close>

text \<open>
  The parser calls \<open>strconv.ParseFloat\<close>, multiplies, divides and adds floating-point
  numbers, converts between \<open>float64\<close>, \<open>float32\<close>, \<open>int\<close> and \<open>uint16\<close>, and parses a date
  with \<open>time.Parse\<close>. These belong to the Go library and the hardware, and their results
  depend on rounding: the parser takes them as the fields of a record \<open>lib\<close>, and what is
  proved about the parser holds for every such record. A constant operand is written as
  the decimal of the source. \<open>None\<close> stands for a returned error.
\<close>

record lib =
  ParseFloat :: "string \<Rightarrow> gofloat option"
  float_mul :: "gofloat \<Rightarrow> gofloat \<Rightarrow> gofloat"
  float_div :: "gofloat \<Rightarrow> gofloat \<Rightarrow> gofloat"
  float32 :: "gofloat \<Rightarrow> gofloat"
  float32_of_int :: "int \<Rightarrow> gofloat"
  float32_add :: "gofloat \<Rightarrow> gofloat \<Rightarrow> gofloat"
  float32_sub :: "gofloat \<Rightarrow> gofloat \<Rightarrow> gofloat"
  float32_neg :: "gofloat \<Rightarrow> gofloat"
  uint16_of_float :: "gofloat \<Rightarrow> 16 word"
  Sprintf_gpsTime :: "string \<Rightarrow> int \<Rightarrow> int \<Rightarrow> gofloat \<Rightarrow> string"
  time_Parse :: "string \<Rightarrow> wall_time option"

section \<open>Sentence parser: \<open>processNMEALine\<close>\<close>

text \<open>
  \<open>processNMEALine\<close> returns a boolean, or panics on an index out of range. A handler
  that cannot panic returns the boolean and the state it leaves; one that can returns a
  \<open>runtime_error\<close> instead. The system clock that a clock message may set with the \<open>date\<close>
  command, the log and the data logger are outside the state modelled here.
\<close>

datatype runtime_error = IndexOutOfRange

definition index :: "'a list \<Rightarrow> int \<Rightarrow> runtime_error + 'a" where
  "index xs k = (if 0 \<le> k \<and> k < int (length xs) then Inr (xs ! nat k) else Inl IndexOutOfRange)"

definition ensure :: "bool \<Rightarrow> unit option" where
  "ensure b = (if b then Some () else None)"

subsection \<open>Fields shared by the position sentences\<close>

text \<open>
  \<open>HHMMSS.sss\<close> at the head of a time field, after the sentence's own length test:
  \<open>float32(3600*hr+60*min) + float32(sec)\<close> (\<open>mins\<close> is the source's \<open>min\<close>).
\<close>

definition parse_hms :: "lib \<Rightarrow> string \<Rightarrow> (int \<times> int \<times> gofloat) option" where
  "parse_hms L f =
     do {
       hr \<leftarrow> Atoi (take 2 f);
       mins \<leftarrow> Atoi (take 2 (drop 2 f));
       sec \<leftarrow> ParseFloat L (drop 4 f);
       Some (hr, mins, sec)
     }"

definition since_midnight :: "lib \<Rightarrow> int \<Rightarrow> int \<Rightarrow> gofloat \<Rightarrow> gofloat" where
  "since_midnight L hr mins sec =
     float32_add L (float32_of_int L (3600 * hr + 60 * mins)) (float32 L sec)"

text \<open>
  A latitude (\<open>deg = 2\<close>) or longitude (\<open>deg = 3\<close>) field \<open>DDMM.mmmm\<close> with its hemisphere:
  \<open>float32(hr) + float32(minf/60.0)\<close>, negated for the hemisphere \<open>neg\<close>.
\<close>

definition parse_angle :: "lib \<Rightarrow> nat \<Rightarrow> string \<Rightarrow> string \<Rightarrow> string \<Rightarrow> gofloat option" where
  "parse_angle L deg f hemi neg =
     do {
       hr \<leftarrow> Atoi (take deg f);
       minf \<leftarrow> ParseFloat L (drop deg f);
       let a = float32_add L (float32_of_int L hr) (float32 L (float_div L minf (Finite 60)));
       Some (if hemi = neg then float32_neg L a else a)
     }"

subsection \<open>\<open>PUBX,00\<close>: position fix\<close>

text \<open>
  The handlers of the position sentences work on the copy \<open>tmpSituation\<close> and assign it
  to \<open>mySituation\<close> at the end; every \<open>return false\<close> on the way drops the copy. The
  functions named \<open>_fields\<close> compute the copy, \<open>None\<close> standing for \<open>return false\<close>. Reads
  of \<open>x\<close> in them stand behind the handler's test of \<open>len(x)\<close>.
\<close>

definition pubx00_fields :: "lib \<Rightarrow> string list \<Rightarrow> state \<Rightarrow> SituationData option" where
  "pubx00_fields L x st =
     do {
       let tmpSituation = mySituation st;
       quality \<leftarrow>
         (if x ! 8 = ''D2'' \<or> x ! 8 = ''D3'' then Some 2
          else if x ! 8 = ''G2'' \<or> x ! 8 = ''G3'' then Some 1
          else if x ! 8 = ''DR'' \<or> x ! 8 = ''RK'' then Some 6
          else None);
       let tmpSituation = tmpSituation\<lparr>Quality := quality\<rparr>;
       hAcc \<leftarrow> ParseFloat L (x ! 9);
       let tmpSituation = tmpSituation\<lparr>Accuracy := float32 L (float_mul L hAcc (Finite 2))\<rparr>;
       let tmpSituation = tmpSituation\<lparr>NACp := calculateNACp (Accuracy tmpSituation)\<rparr>;
       vAcc \<leftarrow> ParseFloat L (x ! 10);
       let tmpSituation = tmpSituation\<lparr>AccuracyVert := float32 L (float_mul L vAcc (Finite 2))\<rparr>;
       _ \<leftarrow> ensure (\<not> length (x ! 2) < 8);
       (hr, mins, sec) \<leftarrow> parse_hms L (x ! 2);
       let tmpSituation = tmpSituation\<lparr>LastFixSinceMidnightUTC := since_midnight L hr mins sec\<rparr>;
       _ \<leftarrow> ensure (\<not> length (x ! 3) < 10);
       lat \<leftarrow> parse_angle L 2 (x ! 3) (x ! 4) ''S'';
       let tmpSituation = tmpSituation\<lparr>Lat := lat\<rparr>;
       _ \<leftarrow> ensure (\<not> length (x ! 5) < 11);
       lng \<leftarrow> parse_angle L 3 (x ! 5) (x ! 6) ''W'';
       let tmpSituation = tmpSituation\<lparr>Lng := lng\<rparr>;
       hae \<leftarrow> ParseFloat L (x ! 7);
       let alt = float32_sub L (float32 L (float_mul L hae (Finite 3.28084))) (GeoidSep tmpSituation);
       let tmpSituation = tmpSituation
             \<lparr>HeightAboveEllipsoid := float32 L (float_mul L hae (Finite 3.28084)), Alt := alt\<rparr>;
       let tmpSituation = tmpSituation\<lparr>LastFixLocalTime := stratuxClock_Time st\<rparr>;
       groundspeed \<leftarrow> ParseFloat L (x ! 11);
       let groundspeed = float_mul L groundspeed (Finite 0.540003);
       let tmpSituation = tmpSituation\<lparr>GroundSpeed := uint16_of_float L groundspeed\<rparr>;
       tc \<leftarrow> ParseFloat L (x ! 12);
       let tmpSituation =
             (if float_lt (Finite 3) groundspeed then tmpSituation\<lparr>TrueCourse := float32 L tc\<rparr>
              else tmpSituation);
       let tmpSituation = tmpSituation\<lparr>LastGroundTrackTime := stratuxClock_Time st\<rparr>;
       vv \<leftarrow> ParseFloat L (x ! 13);
       let tmpSituation = tmpSituation\<lparr>GPSVertVel := float32 L (float_mul L vv (Finite (- 3.28084)))\<rparr>;
       sat \<leftarrow> Atoi (x ! 18);
       let tmpSituation = tmpSituation\<lparr>Satellites := word_of_int sat\<rparr>;
       Some tmpSituation
     }"

definition commit :: "state \<Rightarrow> SituationData option \<Rightarrow> bool \<times> state" where
  "commit st tmp =
     (case tmp of None \<Rightarrow> (False, st) | Some tmpSituation \<Rightarrow> (True, st\<lparr>mySituation := tmpSituation\<rparr>))"

definition pubx00 :: "lib \<Rightarrow> string list \<Rightarrow> state \<Rightarrow> bool \<times> state" where
  "pubx00 L x st = (if length x < 20 then (False, st) else commit st (pubx00_fields L x st))"

subsection \<open>Satellite records\<close>

text \<open>
  The three satellite handlers share these steps. \<open>lookup_satellite\<close> is ``retrieve
  previous information on this satellite code'': the record stored under \<open>svStr\<close>, or a
  new record with the identifier, the NMEA number \<open>uint8(sv)\<close> and the type set.
  \<open>store_satellite\<close> is the end of the protected block:
  \<open>Satellites[thisSatellite.SatelliteID] = thisSatellite; updateConstellation()\<close>.
  \<open>sv_ident\<close> is the family table of the \<open>GSA\<close> and \<open>GSV\<close> handlers; the \<open>PUBX,03\<close>
  handler has one more case.
\<close>

definition lookup_satellite :: "state \<Rightarrow> string \<Rightarrow> int \<Rightarrow> 8 word \<Rightarrow> SatelliteInfo" where
  "lookup_satellite st svStr sv svType =
     (case map_of (Satellites_map st) svStr of
        Some val \<Rightarrow> val
      | None \<Rightarrow>
          SatelliteInfo_zero
            \<lparr>SatelliteID := svStr, SatelliteNMEA := word_of_int sv, Type := svType\<rparr>)"

definition store_satellite :: "SatelliteInfo \<Rightarrow> state \<Rightarrow> state" where
  "store_satellite thisSatellite st =
     updateConstellation
       (st\<lparr>Satellites_map :=
            AList.update (SatelliteID thisSatellite) thisSatellite (Satellites_map st)\<rparr>)"

definition sv_ident :: "int \<Rightarrow> 8 word \<times> string" where
  "sv_ident sv =
     (if sv < 33 then (SAT_TYPE_GPS, ''G'' @ Sprintf_d sv)
      else if sv < 65 then (SAT_TYPE_SBAS, ''S'' @ Sprintf_d (sv + 87))
      else if sv < 97 then (SAT_TYPE_GLONASS, ''R'' @ Sprintf_d (sv - 64))
      else (SAT_TYPE_UNKNOWN, ''U'' @ Sprintf_d sv))"

subsection \<open>\<open>PUBX,03\<close>: satellite status\<close>

text \<open>
  One satellite block of the message, between \<open>satelliteMutex.Lock()\<close> and \<open>Unlock()\<close>:
  the record is looked up or created and updated from the status, azimuth, elevation and
  signal fields (\<open>pubx03_record\<close>), then stored. The conversions \<open>int16(elev)\<close>,
  \<open>int16(az)\<close> and \<open>int8(cno)\<close> truncate.
\<close>

definition pubx03_record ::
  "int \<Rightarrow> string \<Rightarrow> string \<Rightarrow> string \<Rightarrow> string \<Rightarrow> state \<Rightarrow> SatelliteInfo" where
  "pubx03_record sv0 status az_txt elev_txt cno_txt st =
     (let (svType, svStr, sv) =
            (if sv0 < 33 then (SAT_TYPE_GPS, ''G'' @ Sprintf_d sv0, sv0)
             else if sv0 < 65 then (SAT_TYPE_SBAS, ''S'' @ Sprintf_d (sv0 + 87), sv0)
             else if sv0 < 97 then (SAT_TYPE_GLONASS, ''R'' @ Sprintf_d (sv0 - 64), sv0)
             else if sv0 \<ge> 120 \<and> sv0 < 162 then (SAT_TYPE_SBAS, ''S'' @ Sprintf_d sv0, sv0 - 87)
             else (SAT_TYPE_UNKNOWN, ''U'' @ Sprintf_d sv0, sv0));
          thisSatellite = lookup_satellite st svStr sv svType;
          thisSatellite = thisSatellite\<lparr>TimeLastTracked := stratuxClock_Time st\<rparr>;
          elev = (case Atoi elev_txt of None \<Rightarrow> - 999 | Some e \<Rightarrow> e);
          thisSatellite = thisSatellite\<lparr>Elevation := word_of_int elev\<rparr>;
          az = (case Atoi az_txt of None \<Rightarrow> - 999 | Some a \<Rightarrow> a);
          thisSatellite = thisSatellite\<lparr>Azimuth := word_of_int az\<rparr>;
          cno = (case Atoi cno_txt of None \<Rightarrow> - 99 | Some c \<Rightarrow> c);
          thisSatellite =
            (case Atoi cno_txt of
               None \<Rightarrow> thisSatellite
             | Some c \<Rightarrow>
                 if c > 0 then thisSatellite\<lparr>TimeLastSeen := stratuxClock_Time st\<rparr>
                 else thisSatellite);
          thisSatellite = thisSatellite\<lparr>Signal := word_of_int cno\<rparr>
      in if status = ''U''
         then thisSatellite\<lparr>InSolution := True, TimeLastSolution := stratuxClock_Time st\<rparr>
         else thisSatellite\<lparr>InSolution := False\<rparr>)"

definition pubx03_satellite ::
  "int \<Rightarrow> string \<Rightarrow> string \<Rightarrow> string \<Rightarrow> string \<Rightarrow> state \<Rightarrow> state" where
  "pubx03_satellite sv status az_txt elev_txt cno_txt st =
     store_satellite (pubx03_record sv status az_txt elev_txt cno_txt st) st"

text \<open>
  Iteration \<open>i\<close> of \<open>for i := 0; i < satTracked; i++\<close>. The reads \<open>x[3+6*i]\<close> ...
  \<open>x[7+6*i]\<close> are checked: the test of \<open>len(x)\<close> before the loop compares against
  \<open>satTracked*6 + 3\<close>, which can wrap. \<open>Inr None\<close> stands for \<open>return false\<close>.
\<close>

definition pubx03_block :: "string list \<Rightarrow> int \<Rightarrow> state \<Rightarrow> runtime_error + state option" where
  "pubx03_block x i st =
     (case index x (wrap_int (3 + 6 * i)) of
        Inl e \<Rightarrow> Inl e
      | Inr sv_txt \<Rightarrow>
          (case Atoi sv_txt of
             None \<Rightarrow> Inr None
           | Some sv \<Rightarrow>
               (case (index x (wrap_int (6 + 6 * i)), index x (wrap_int (5 + 6 * i)),
                      index x (wrap_int (7 + 6 * i)), index x (wrap_int (4 + 6 * i))) of
                  (Inr elev_txt, Inr az_txt, Inr cno_txt, Inr status) \<Rightarrow>
                    Inr (Some (pubx03_satellite sv status az_txt elev_txt cno_txt st))
                | _ \<Rightarrow> Inl IndexOutOfRange)))"

function pubx03_loop ::
  "string list \<Rightarrow> int \<Rightarrow> int \<Rightarrow> state \<Rightarrow> runtime_error + (bool \<times> state)" where
  "pubx03_loop x satTracked i st =
     (if i < satTracked then
        (case pubx03_block x i st of
           Inl e \<Rightarrow> Inl e
         | Inr None \<Rightarrow> Inr (False, st)
         | Inr (Some st') \<Rightarrow> pubx03_loop x satTracked (i + 1) st')
      else Inr (True, st))"
  by pat_completeness auto
termination
  by (relation "measure (\<lambda>(x, satTracked, i, st). nat (satTracked - i))") auto

declare pubx03_loop.simps [simp del]

definition pubx03 :: "string list \<Rightarrow> state \<Rightarrow> runtime_error + (bool \<times> state)" where
  "pubx03 x st =
     (if length x < 3 then Inr (False, st)
      else
        (case Atoi (x ! 2) of
           None \<Rightarrow> Inr (False, st)
         | Some satTracked \<Rightarrow>
             if int (length x) < wrap_int (satTracked * 6 + 3) then Inr (False, st)
             else
               pubx03_loop x satTracked 0
                 (st\<lparr>mySituation := (mySituation st)\<lparr>SatellitesTracked := word_of_int satTracked\<rparr>\<rparr>)))"

subsection \<open>\<open>PUBX,04\<close>: clock\<close>

text \<open>
  The handler reads \<open>x[5]\<close> first, with no test of \<open>len(x)\<close> before it. Where the date
  field is not six characters long or does not parse, control leaves the \<open>PUBX\<close> branch
  and reaches the final \<open>return false\<close>.
\<close>

definition pubx04 :: "lib \<Rightarrow> string list \<Rightarrow> state \<Rightarrow> runtime_error + (bool \<times> state)" where
  "pubx04 L x st =
     (case index x 5 of
        Inl e \<Rightarrow> Inl e
      | Inr week_txt \<Rightarrow>
          (case Atoi week_txt of
             None \<Rightarrow> Inr (False, st)
           | Some utcWeek \<Rightarrow>
               if utcWeek < 1877 \<or> utcWeek \<ge> 32767 then Inr (False, st)
               else if length (x ! 2) < 7 then Inr (False, st)
               else
                 (case parse_hms L (x ! 2) of
                    None \<Rightarrow> Inr (False, st)
                  | Some (hr, mins, sec) \<Rightarrow>
                      if length (x ! 3) = 6 then
                        (case time_Parse L (Sprintf_gpsTime L (x ! 3) hr mins sec) of
                           None \<Rightarrow> Inr (False, st)
                         | Some gpsTime \<Rightarrow>
                             Inr (True,
                               st\<lparr>mySituation := (mySituation st)
                                    \<lparr>LastGPSTimeTime := stratuxClock_Time st,
                                     GPSTime := gpsTime,
                                     LastFixSinceMidnightUTC := since_midnight L hr mins sec\<rparr>\<rparr>))
                      else Inr (False, st))))"

subsection \<open>\<open>GNVTG\<close>, \<open>GPVTG\<close>: ground track\<close>

definition vtg_fields :: "lib \<Rightarrow> string list \<Rightarrow> state \<Rightarrow> SituationData option" where
  "vtg_fields L x st =
     do {
       let tmpSituation = mySituation st;
       groundspeed \<leftarrow> ParseFloat L (x ! 5);
       let tmpSituation = tmpSituation\<lparr>GroundSpeed := uint16_of_float L groundspeed\<rparr>;
       tc \<leftarrow> ParseFloat L (x ! 1);
       let tmpSituation =
             (if float_lt (Finite 3) groundspeed then tmpSituation\<lparr>TrueCourse := float32 L tc\<rparr>
              else tmpSituation);
       let tmpSituation = tmpSituation\<lparr>LastGroundTrackTime := stratuxClock_Time st\<rparr>;
       Some tmpSituation
     }"

definition vtg :: "lib \<Rightarrow> string list \<Rightarrow> state \<Rightarrow> bool \<times> state" where
  "vtg L x st = (if length x < 9 then (False, st) else commit st (vtg_fields L x st))"

subsection \<open>\<open>GNGGA\<close>, \<open>GPGGA\<close>: position fix\<close>

definition gga_fields :: "lib \<Rightarrow> string list \<Rightarrow> state \<Rightarrow> SituationData option" where
  "gga_fields L x st =
     do {
       let tmpSituation = mySituation st;
       q \<leftarrow> Atoi (x ! 6);
       let tmpSituation = tmpSituation\<lparr>Quality := word_of_int q\<rparr>;
       _ \<leftarrow> ensure (\<not> length (x ! 1) < 7);
       (hr, mins, sec) \<leftarrow> parse_hms L (x ! 1);
       let tmpSituation = tmpSituation\<lparr>LastFixSinceMidnightUTC := since_midnight L hr mins sec\<rparr>;
       _ \<leftarrow> ensure (\<not> length (x ! 2) < 4);
       lat \<leftarrow> parse_angle L 2 (x ! 2) (x ! 3) ''S'';
       let tmpSituation = tmpSituation\<lparr>Lat := lat\<rparr>;
       _ \<leftarrow> ensure (\<not> length (x ! 4) < 5);
       lng \<leftarrow> parse_angle L 3 (x ! 4) (x ! 5) ''W'';
       let tmpSituation = tmpSituation\<lparr>Lng := lng\<rparr>;
       alt \<leftarrow> ParseFloat L (x ! 9);
       let tmpSituation = tmpSituation\<lparr>Alt := float32 L (float_mul L alt (Finite 3.28084))\<rparr>;
       geoidSep \<leftarrow> ParseFloat L (x ! 11);
       let tmpSituation = tmpSituation\<lparr>GeoidSep := float32 L (float_mul L geoidSep (Finite 3.28084))\<rparr>;
       let tmpSituation = tmpSituation
             \<lparr>HeightAboveEllipsoid := float32_add L (GeoidSep tmpSituation) (Alt tmpSituation)\<rparr>;
       let tmpSituation = tmpSituation\<lparr>LastFixLocalTime := stratuxClock_Time st\<rparr>;
       Some tmpSituation
     }"

definition gga :: "lib \<Rightarrow> string list \<Rightarrow> state \<Rightarrow> bool \<times> state" where
  "gga L x st = (if length x < 15 then (False, st) else commit st (gga_fields L x st))"

subsection \<open>\<open>GNRMC\<close>, \<open>GPRMC\<close>: recommended minimum data\<close>

definition rmc_fields :: "lib \<Rightarrow> string list \<Rightarrow> state \<Rightarrow> SituationData option" where
  "rmc_fields L x st =
     do {
       let tmpSituation = mySituation st;
       _ \<leftarrow> ensure (x ! 2 = ''A'');
       _ \<leftarrow> ensure (\<not> length (x ! 1) < 7);
       (hr, mins, sec) \<leftarrow> parse_hms L (x ! 1);
       let tmpSituation = tmpSituation\<lparr>LastFixSinceMidnightUTC := since_midnight L hr mins sec\<rparr>;
       let tmpSituation =
             (if length (x ! 9) = 6 then
                (case time_Parse L (Sprintf_gpsTime L (x ! 9) hr mins sec) of
                   None \<Rightarrow> tmpSituation
                 | Some gpsTime \<Rightarrow>
                     tmpSituation\<lparr>LastGPSTimeTime := stratuxClock_Time st, GPSTime := gpsTime\<rparr>)
              else tmpSituation);
       _ \<leftarrow> ensure (\<not> length (x ! 3) < 4);
       lat \<leftarrow> parse_angle L 2 (x ! 3) (x ! 4) ''S'';
       let tmpSituation = tmpSituation\<lparr>Lat := lat\<rparr>;
       _ \<leftarrow> ensure (\<not> length (x ! 5) < 5);
       lng \<leftarrow> parse_angle L 3 (x ! 5) (x ! 6) ''W'';
       let tmpSituation = tmpSituation\<lparr>Lng := lng\<rparr>;
       let tmpSituation = tmpSituation\<lparr>LastFixLocalTime := stratuxClock_Time st\<rparr>;
       groundspeed \<leftarrow> ParseFloat L (x ! 7);
       let tmpSituation = tmpSituation\<lparr>GroundSpeed := uint16_of_float L groundspeed\<rparr>;
       tc \<leftarrow> ParseFloat L (x ! 8);
       let tmpSituation =
             (if float_lt (Finite 3) groundspeed then tmpSituation\<lparr>TrueCourse := float32 L tc\<rparr>
              else tmpSituation);
       let tmpSituation = tmpSituation\<lparr>LastGroundTrackTime := stratuxClock_Time st\<rparr>;
       Some tmpSituation
     }"

definition rmc :: "lib \<Rightarrow> string list \<Rightarrow> state \<Rightarrow> bool \<times> state" where
  "rmc L x st = (if length x < 11 then (False, st) else commit st (rmc_fields L x st))"

subsection \<open>\<open>GNGSA\<close>, \<open>GPGSA\<close>: satellites in the solution\<close>

text \<open>
  The body of \<open>for _, svtxt := range x[3:15]\<close> for a field that parses as a number: the
  satellite is looked up or created, marked as in the solution and stored. \<open>gsa_loop\<close> threads the state, the count \<open>sat\<close> and the flags \<open>svSBAS\<close> and
  \<open>svGLONASS\<close>; a field that does not parse is skipped.
\<close>

definition gsa_satellite :: "int \<Rightarrow> state \<Rightarrow> state" where
  "gsa_satellite sv st =
     (let (svType, svStr) = sv_ident sv;
          thisSatellite = lookup_satellite st svStr sv svType;
          thisSatellite = thisSatellite
            \<lparr>InSolution := True, TimeLastSolution := stratuxClock_Time st,
             TimeLastSeen := stratuxClock_Time st, TimeLastTracked := stratuxClock_Time st\<rparr>
      in store_satellite thisSatellite st)"

fun gsa_loop ::
  "string list \<Rightarrow> state \<Rightarrow> int \<times> bool \<times> bool \<Rightarrow> state \<times> int \<times> bool \<times> bool" where
  "gsa_loop [] st (sat, svSBAS, svGLONASS) = (st, sat, svSBAS, svGLONASS)"
| "gsa_loop (svtxt # rest) st (sat, svSBAS, svGLONASS) =
     (case Atoi svtxt of
        None \<Rightarrow> gsa_loop rest st (sat, svSBAS, svGLONASS)
      | Some sv \<Rightarrow>
          gsa_loop rest (gsa_satellite sv st)
            (sat + 1,
             (if sv < 33 then svSBAS else if sv < 65 then True else svSBAS),
             (if sv < 65 then svGLONASS else if sv < 97 then True else svGLONASS)))"

text \<open>
  The rest of the handler, on the copy \<open>tmpSituation\<close> taken before the loop: the count
  update, then the accuracy from the dilutions of precision.
\<close>

definition gsa_count :: "SituationData \<Rightarrow> int \<Rightarrow> bool \<Rightarrow> bool \<Rightarrow> SituationData" where
  "gsa_count tmpSituation sat svSBAS svGLONASS =
     (if sat < 12 \<or> Satellites tmpSituation < 13 then
        (let tmpSituation = tmpSituation\<lparr>Satellites := word_of_int sat\<rparr>
         in if Quality tmpSituation = 2 \<and> \<not> svSBAS \<and> \<not> svGLONASS
            then tmpSituation\<lparr>Satellites := Satellites tmpSituation + 1\<rparr>
            else tmpSituation)
      else tmpSituation)"

definition gsa_fields :: "lib \<Rightarrow> string list \<Rightarrow> SituationData \<Rightarrow> SituationData option" where
  "gsa_fields L x tmpSituation =
     do {
       hdop \<leftarrow> ParseFloat L (x ! 16);
       let tmpSituation =
             (if Quality tmpSituation = 2
              then tmpSituation\<lparr>Accuracy := float32 L (float_mul L hdop (Finite 4))\<rparr>
              else tmpSituation\<lparr>Accuracy := float32 L (float_mul L hdop (Finite 8))\<rparr>);
       let tmpSituation = tmpSituation\<lparr>NACp := calculateNACp (Accuracy tmpSituation)\<rparr>;
       vdop \<leftarrow> ParseFloat L (x ! 17);
       let tmpSituation = tmpSituation\<lparr>AccuracyVert := float32 L (float_mul L vdop (Finite 5))\<rparr>;
       Some tmpSituation
     }"

definition gsa :: "lib \<Rightarrow> string list \<Rightarrow> state \<Rightarrow> bool \<times> state" where
  "gsa L x st =
     (let tmpSituation = mySituation st
      in if length x < 18 then (False, st)
         else if x ! 2 = [] \<or> x ! 2 = ''1'' then (False, st)
         else
           (case gsa_loop (take 12 (drop 3 x)) st (0, False, False) of
              (st, sat, svSBAS, svGLONASS) \<Rightarrow>
                commit st (gsa_fields L x (gsa_count tmpSituation sat svSBAS svGLONASS))))"

subsection \<open>\<open>GPGSV\<close>, \<open>GLGSV\<close>: satellites in view\<close>

text \<open>
  One satellite block of the message: the record is looked up or created and updated
  (\<open>gsv_record\<close>), then stored. A signal field that does not parse is stored as \<open>-99\<close>
  and clears \<open>InSolution\<close>; a signal above 127 is stored as 127. The test for an SBAS
  solution reads the quality of \<open>mySituation\<close>.
\<close>

definition gsv_record :: "int \<Rightarrow> string \<Rightarrow> string \<Rightarrow> string \<Rightarrow> state \<Rightarrow> SatelliteInfo" where
  "gsv_record sv elev_txt az_txt cno_txt st =
     (let (svType, svStr) = sv_ident sv;
          thisSatellite = lookup_satellite st svStr sv svType;
          thisSatellite = thisSatellite\<lparr>TimeLastTracked := stratuxClock_Time st\<rparr>;
          elev = (case Atoi elev_txt of None \<Rightarrow> - 999 | Some e \<Rightarrow> e);
          thisSatellite = thisSatellite\<lparr>Elevation := word_of_int elev\<rparr>;
          az = (case Atoi az_txt of None \<Rightarrow> - 999 | Some a \<Rightarrow> a);
          thisSatellite = thisSatellite\<lparr>Azimuth := word_of_int az\<rparr>;
          cno = (case Atoi cno_txt of None \<Rightarrow> - 99 | Some c \<Rightarrow> c);
          thisSatellite =
            (case Atoi cno_txt of
               None \<Rightarrow> thisSatellite\<lparr>InSolution := False\<rparr>
             | Some c \<Rightarrow>
                 if c > 0 then thisSatellite\<lparr>TimeLastSeen := stratuxClock_Time st\<rparr>
                 else thisSatellite);
          cno = (if cno > 127 then 127 else cno);
          thisSatellite = thisSatellite\<lparr>Signal := word_of_int cno\<rparr>
      in if Type thisSatellite = SAT_TYPE_SBAS then
           (if Quality (mySituation st) = 2 then
              (if 16 <s Signal thisSatellite
               then thisSatellite\<lparr>InSolution := True, TimeLastSolution := stratuxClock_Time st\<rparr>
               else thisSatellite)
            else thisSatellite\<lparr>InSolution := False\<rparr>)
         else thisSatellite)"

definition gsv_satellite :: "int \<Rightarrow> string \<Rightarrow> string \<Rightarrow> string \<Rightarrow> state \<Rightarrow> state" where
  "gsv_satellite sv elev_txt az_txt cno_txt st =
     store_satellite (gsv_record sv elev_txt az_txt cno_txt st) st"

text \<open>
  \<open>for i := 0; i < satsThisMsg; i++\<close> with \<open>satsThisMsg = (len(x) - 4) / 4\<close>: the reads
  \<open>x[4+4*i]\<close> ... \<open>x[7+4*i]\<close> are below \<open>len(x)\<close>.
\<close>

fun gsv_loop :: "string list \<Rightarrow> nat list \<Rightarrow> state \<Rightarrow> bool \<times> state" where
  "gsv_loop x [] st = (True, st)"
| "gsv_loop x (i # rest) st =
     (case Atoi (x ! (4 + 4 * i)) of
        None \<Rightarrow> (False, st)
      | Some sv \<Rightarrow>
          gsv_loop x rest
            (gsv_satellite sv (x ! (5 + 4 * i)) (x ! (6 + 4 * i)) (x ! (7 + 4 * i)) st))"

definition gsv :: "string list \<Rightarrow> state \<Rightarrow> bool \<times> state" where
  "gsv x st =
     (if length x < 4 then (False, st)
      else
        (case Atoi (x ! 2) of
           None \<Rightarrow> (False, st)
         | Some msgNum \<Rightarrow>
             (let lenGSV = length x;
                  satsThisMsg = (lenGSV - 4) div 4
              in gsv_loop x [0 ..< satsThisMsg] st)))"

subsection \<open>Dispatch\<close>

text \<open>
  A line whose checksum does not validate is rejected with nothing changed. Otherwise
  the time and text of the last valid sentence are recorded, the payload is split at the
  commas (\<open>x[0]\<close> always exists), and the first field selects the handler. In the \<open>PUBX\<close>
  branch \<open>x[1]\<close> is read with no test of \<open>len(x)\<close> before it.
\<close>

definition processNMEALine :: "lib \<Rightarrow> string \<Rightarrow> state \<Rightarrow> runtime_error + (bool \<times> state)" where
  "processNMEALine L l st =
     (case validateNMEAChecksum l of
        Inl err \<Rightarrow> Inr (False, st)
      | Inr l_valid \<Rightarrow>
          (let x = Split l_valid (CHR '','');
               st = st\<lparr>mySituation := (mySituation st)
                         \<lparr>LastValidNMEAMessageTime := stratuxClock_Time st,
                          LastValidNMEAMessage := l\<rparr>\<rparr>
           in if x ! 0 = ''PUBX'' then
                (case index x 1 of
                   Inl e \<Rightarrow> Inl e
                 | Inr x1 \<Rightarrow>
                     if x1 = ''00'' then Inr (pubx00 L x st)
                     else if x1 = ''03'' then pubx03 x st
                     else if x1 = ''04'' then pubx04 L x st
                     else Inr (False, st))
              else if x ! 0 = ''GNVTG'' \<or> x ! 0 = ''GPVTG'' then Inr (vtg L x st)
              else if x ! 0 = ''GNGGA'' \<or> x ! 0 = ''GPGGA'' then Inr (gga L x st)
              else if x ! 0 = ''GNRMC'' \<or> x ! 0 = ''GPRMC'' then Inr (rmc L x st)
              else if x ! 0 = ''GNGSA'' \<or> x ! 0 = ''GPGSA'' then Inr (gsa L x st)
              else if x ! 0 = ''GPGSV'' \<or> x ! 0 = ''GLGSV'' then Inr (gsv x st)
              else Inr (False, st)))"

section \<open>An instance of the library for running examples\<close>

text \<open>
  \<open>exact_lib\<close> computes without rounding: a decimal numeral (optional sign, digits,
  optionally a point and more digits) parses to its exact value, arithmetic on finite
  values is exact, conversion to \<open>float32\<close> changes nothing, conversion to \<open>uint16\<close>
  truncates, and no date parses. It serves to run the parser on concrete sentences.
\<close>

definition decimal_ParseFloat :: "string \<Rightarrow> gofloat option" where
  "decimal_ParseFloat s =
     (case Split s (CHR ''.'') of
        [a] \<Rightarrow> map_option (\<lambda>i. Finite (of_int i)) (Atoi a)
      | [a, b] \<Rightarrow>
          (case (Atoi a, those (map digit_val b)) of
             (Some i, Some ds) \<Rightarrow>
               (let frac = real (foldl (\<lambda>a d. 10 * a + d) 0 ds) / 10 ^ length ds
                in Some (Finite (if take 1 a = ''-'' then of_int i - frac else of_int i + frac)))
           | _ \<Rightarrow> None)
      | _ \<Rightarrow> None)"

fun exact_op :: "(real \<Rightarrow> real \<Rightarrow> real) \<Rightarrow> gofloat \<Rightarrow> gofloat \<Rightarrow> gofloat" where
  "exact_op f (Finite a) (Finite b) = Finite (f a b)"
| "exact_op f _ _ = NaN"

fun exact_uint16 :: "gofloat \<Rightarrow> 16 word" where
  "exact_uint16 (Finite a) = word_of_int (floor a)"
| "exact_uint16 _ = 0"

definition exact_lib :: lib where
  "exact_lib =
     \<lparr>ParseFloat = decimal_ParseFloat,
      float_mul = exact_op (*),
      float_div = exact_op (/),
      float32 = (\<lambda>a. a),
      float32_of_int = (\<lambda>i. Finite (of_int i)),
      float32_add = exact_op (+),
      float32_sub = exact_op (-),
      float32_neg = exact_op (-) (Finite 0),
      uint16_of_float = exact_uint16,
      Sprintf_gpsTime = (\<lambda>d hr mins sec. d),
      time_Parse = (\<lambda>s. None)\<rparr>"

section \<open>Example states\<close>

text \<open>
  \<open>crowded_sky\<close> is the start-up state with a map of 256 satellites \<open>U97\<close> ... \<open>U352\<close>, all
  tracked at the current instant.
\<close>

definition crowded_sky :: state where
  "crowded_sky =
     initRY835AI
       \<lparr>Satellites_map :=
          map (\<lambda>n. (''U'' @ Sprintf_d (int n),
                    SatelliteInfo_zero\<lparr>SatelliteID := ''U'' @ Sprintf_d (int n),
                                       SatelliteNMEA := of_nat n\<rparr>))
            [97 ..< 353]\<rparr>"

text \<open>
  A small constellation, twenty seconds after start-up: \<open>G5\<close> is tracked and in the
  solution, \<open>G7\<close> was last in a solution eight seconds ago, \<open>S133\<close> was last tracked fifteen
  seconds ago.
\<close>

definition three_sats :: state where
  "three_sats =
     \<lparr>mySituation = SituationData_zero,
      Satellites_map =
        [(''G5'', \<lparr>SatelliteNMEA = 5, SatelliteID = ''G5'', Elevation = 40, Azimuth = 120,
                   Signal = 30, Type = SAT_TYPE_GPS, TimeLastSolution = 19 * Second,
                   TimeLastSeen = 19 * Second, TimeLastTracked = 19 * Second,
                   InSolution = True\<rparr>),
         (''G7'', \<lparr>SatelliteNMEA = 7, SatelliteID = ''G7'', Elevation = 10, Azimuth = 300,
                   Signal = 0, Type = SAT_TYPE_GPS, TimeLastSolution = 12 * Second,
                   TimeLastSeen = 12 * Second, TimeLastTracked = 18 * Second,
                   InSolution = True\<rparr>),
         (''S133'', \<lparr>SatelliteNMEA = 46, SatelliteID = ''S133'', Elevation = 30, Azimuth = 180,
                     Signal = 25, Type = SAT_TYPE_SBAS, TimeLastSolution = 5 * Second,
                     TimeLastSeen = 5 * Second, TimeLastTracked = 5 * Second,
                     InSolution = True\<rparr>)],
      stratuxClock_Time = 20 * Second,
      GPS_connected = True\<rparr>"

text \<open>
  A differential fix, twenty seconds after start-up: quality 2, and the SBAS satellite
  \<open>S133\<close> (NMEA number 46) tracked and in the solution one second ago.
\<close>

definition sbas_fix :: state where
  "sbas_fix =
     \<lparr>mySituation = SituationData_zero\<lparr>Quality := 2, Satellites := 1, SatellitesTracked := 1,
                                          SatellitesSeen := 1\<rparr>,
      Satellites_map =
        [(''S133'', \<lparr>SatelliteNMEA = 46, SatelliteID = ''S133'', Elevation = 30, Azimuth = 180,
                     Signal = 25, Type = SAT_TYPE_SBAS, TimeLastSolution = 19 * Second,
                     TimeLastSeen = 19 * Second, TimeLastTracked = 19 * Second,
                     InSolution = True\<rparr>)],
      stratuxClock_Time = 20 * Second,
      GPS_connected = True\<rparr>"

text \<open>
  Two situations for the \<open>GSA\<close> handler: a differential fix (quality 2) with no
  satellites yet, and a plain fix (quality 1) with 13 satellites in the solution.
\<close>

definition dgps_start :: state where
  "dgps_start = initRY835AI\<lparr>mySituation := SituationData_zero\<lparr>Quality := 2\<rparr>\<rparr>"

definition thirteen_in_solution :: state where
  "thirteen_in_solution =
     initRY835AI
       \<lparr>mySituation := SituationData_zero
          \<lparr>Quality := 1, Satellites := 13, SatellitesTracked := 13, SatellitesSeen := 13\<rparr>\<rparr>"

section \<open>Properties of the codec\<close>

lemma mask8: "(0xFF :: 16 word) = mask 8" by (simp add: mask_eq_exp_minus_1)

lemma len_lo: "(ucast ((n :: 16 word) AND 0xFF) :: byte) = of_nat (unat n mod 256)"
proof -
  have "unat n mod 256 = take_bit 8 (unat n)" by (simp add: take_bit_eq_mod)
  moreover have "(ucast (n AND mask 8) :: byte) = of_nat (take_bit 8 (unat n))"
    by (rule bit_word_eqI) (auto simp add: bit_simps)
  ultimately show ?thesis by (simp only: mask8)
qed

lemma len_hi: "unat (drop_bit 8 (n :: 16 word)) mod 256 = unat n div 256"
proof -
  have "unat n < 65536" using unsigned_less [of n, where 'a = nat] by simp
  then have "unat n div 256 < 256" by simp
  moreover have "unat (drop_bit 8 n) = unat n div 256"
    by (simp add: drop_bit_eq_div unat_div)
  ultimately show ?thesis by simp
qed

lemma word_add_of_nat_mod:
  "(of_nat a :: byte) + of_nat c = of_nat ((a + c) mod 256)"
  by (rule word_unat_eq_iff [THEN iffD2]) (simp add: unat_word_ariths unat_of_nat mod_simps)

lemma chksumUBX_loop_fletcher8:
  "chksumUBX_loop msg (of_nat a, of_nat b) =
     (of_nat (fst (foldl fletcher8_step (a, b) msg)), of_nat (snd (foldl fletcher8_step (a, b) msg)))"
proof (induction msg arbitrary: a b)
  case Nil
  show ?case by simp
next
  case (Cons x msg)
  have a: "(of_nat a :: byte) + x = of_nat ((a + unat x) mod 256)"
    using word_add_of_nat_mod [of a "unat x"] by simp
  have b: "(of_nat b :: byte) + of_nat ((a + unat x) mod 256)
           = of_nat ((b + (a + unat x) mod 256) mod 256)"
    by (rule word_add_of_nat_mod)
  show ?case
    using Cons.IH [of "(a + unat x) mod 256" "(b + (a + unat x) mod 256) mod 256"]
    by (simp add: a b fletcher8_step_def Let_def)
qed

lemma chksumUBX_fletcher8: "chksumUBX msg = fletcher8 msg"
  using chksumUBX_loop_fletcher8 [of msg 0 0]
  by (simp add: chksumUBX_def fletcher8_def Let_def)

lemma chksumUBX_two: "chksumUBX msg = [chksumUBX msg ! 0, chksumUBX msg ! 1]"
  by (simp add: chksumUBX_def split: prod.split)

lemma makeUBXCFG_unfold:
  "makeUBXCFG c i n p =
     [0xB5, 0x62] @ ([c, i, ucast (n AND 0xFF), ucast (drop_bit 8 n AND 0xFF)] @ p) @
     chksumUBX ([c, i, ucast (n AND 0xFF), ucast (drop_bit 8 n AND 0xFF)] @ p)"
proof -
  let ?m = "[c, i, ucast (n AND 0xFF), ucast (drop_bit 8 n AND 0xFF)] @ p"
  have "makeUBXCFG c i n p = [0xB5, 0x62] @ ?m @ [chksumUBX ?m ! 0, chksumUBX ?m ! 1]"
    by (simp add: makeUBXCFG_def Let_def)
  also have "[chksumUBX ?m ! 0, chksumUBX ?m ! 1] = chksumUBX ?m"
    by (rule chksumUBX_two [symmetric])
  finally show ?thesis .
qed

text \<open>
  Claim C9. For every class byte, id byte, length word and payload, \<open>makeUBXCFG\<close> builds
  the frame \<open>0xB5 0x62 class id len_lo len_hi payload ck_a ck_b\<close>, where \<open>len_lo\<close> and
  \<open>len_hi\<close> are the low and high byte of \<open>msglen\<close>, and the two trailing bytes are the
  Fletcher-8 checksum of the bytes from the class byte through the last payload byte:
  \<open>fletcher8 (unframe f) = checksum_bytes f\<close> for the frame \<open>f\<close> built.
\<close>

theorem makeUBXCFG_frame_fletcher8:
  "makeUBXCFG c i n p =
     [0xB5, 0x62, c, i, of_nat (unat n mod 256), of_nat (unat n div 256)] @ p @
     fletcher8 ([c, i, of_nat (unat n mod 256), of_nat (unat n div 256)] @ p)
   \<and> fletcher8 (unframe (makeUBXCFG c i n p)) = checksum_bytes (makeUBXCFG c i n p)"
proof -
  let ?hdr = "[c, i, of_nat (unat n mod 256), of_nat (unat n div 256)]"
  obtain a b where ab: "fletcher8 (?hdr @ p) = [a, b]"
    by (simp add: fletcher8_def Let_def)
  have frame: "makeUBXCFG c i n p = [0xB5, 0x62] @ (?hdr @ p) @ [a, b]"
    by (simp only: makeUBXCFG_unfold len_lo len_hi chksumUBX_fletcher8 ab)
  have "unframe (makeUBXCFG c i n p) = ?hdr @ p"
    by (simp add: frame unframe_def)
  moreover have "checksum_bytes (makeUBXCFG c i n p) = [a, b]"
    by (simp add: frame checksum_bytes_def)
  ultimately show ?thesis using ab frame by simp
qed

lemma Split_not_Nil: "Split s sep \<noteq> []"
  by (induction s) (auto split: list.splits)

lemma Split_no_sep: "sep \<notin> set t \<Longrightarrow> Split t sep = [t]"
  by (induction t) auto

lemma Split_append_sep: "sep \<notin> set X \<Longrightarrow> Split (X @ sep # t) sep = X # Split t sep"
  by (induction X) auto

lemma Split_Contains_length: "Contains s sep \<Longrightarrow> 2 \<le> length (Split s sep)"
  unfolding Contains_def
proof (induction s)
  case Nil
  then show ?case by simp
next
  case (Cons c s)
  show ?case
  proof (cases "c = sep")
    case True
    then show ?thesis using Split_not_Nil [of s sep] by (cases "Split s sep") auto
  next
    case False
    then show ?thesis using Cons by (auto split: list.splits)
  qed
qed

lemma hexdigit_cases:
  assumes "n < 16"
  shows "hexval (hexdigit n) = Some n \<and> hexdigit n \<noteq> CHR ''*''"
proof -
  from assms have "n = 0 \<or> n = 1 \<or> n = 2 \<or> n = 3 \<or> n = 4 \<or> n = 5 \<or> n = 6 \<or> n = 7 \<or> n = 8
      \<or> n = 9 \<or> n = 10 \<or> n = 11 \<or> n = 12 \<or> n = 13 \<or> n = 14 \<or> n = 15" by arith
  then show ?thesis
    by (elim disjE) (simp_all add: hexdigit_def hexval_def)
qed

lemma ParseUint_Sprintf_02x: "ParseUint_16_8 (Sprintf_02x b) = Some b"
proof -
  have lt: "unat b < 256" using unsigned_less [of b, where 'a = nat] by simp
  then have hi: "unat b div 16 < 16" and lo: "unat b mod 16 < 16" by simp_all
  have "16 * (unat b div 16) + unat b mod 16 = unat b" by simp
  then show ?thesis
    using lt hexdigit_cases [OF hi] hexdigit_cases [OF lo]
    by (simp add: ParseUint_16_8_def Sprintf_02x_def)
qed

lemma validate_makeNMEACmd:
  assumes "CHR ''*'' \<notin> set X"
  shows "validateNMEAChecksum (makeNMEACmd X) = Inr X"
proof -
  define t where "t = Sprintf_02x (xor_range X 0) @ [CHR 0x0D, CHR 0x0A]"
  have mk: "makeNMEACmd X = CHR ''$'' # X @ CHR ''*'' # t"
    by (simp add: makeNMEACmd_def t_def Let_def)
  have lt: "unat (xor_range X 0) < 256"
    using unsigned_less [of "xor_range X 0", where 'a = nat] by simp
  then have hi: "unat (xor_range X 0) div 16 < 16" and lo: "unat (xor_range X 0) mod 16 < 16"
    by simp_all
  have "CHR ''*'' \<notin> set t"
    using hexdigit_cases [OF hi] hexdigit_cases [OF lo] by (auto simp add: t_def Sprintf_02x_def)
  then have sp: "Split (X @ CHR ''*'' # t) (CHR ''*'') = [X, t]"
    using assms by (simp add: Split_append_sep Split_no_sep)
  have t2: "take 2 t = Sprintf_02x (xor_range X 0)" and len: "\<not> length t < 2"
    by (simp_all add: t_def Sprintf_02x_def)
  show ?thesis
    by (simp add: validateNMEAChecksum_def mk HasPrefix_def Contains_def TrimPrefix_def sp
        len t2 ParseUint_Sprintf_02x Let_def)
qed

text \<open>
  Claim C8. For every ASCII payload \<open>X\<close> that contains neither \<open>$\<close> nor \<open>*\<close>,
  \<open>validateNMEAChecksum\<close> applied to the sentence built by \<open>makeNMEACmd X\<close> succeeds and
  returns exactly \<open>X\<close>.
\<close>

theorem validateNMEAChecksum_makeNMEACmd:
  assumes "\<forall>c \<in> set X. (of_char c :: nat) < 128"
    and "CHR ''$'' \<notin> set X" and "CHR ''*'' \<notin> set X"
  shows "validateNMEAChecksum (makeNMEACmd X) = Inr X"
  using assms(3) by (rule validate_makeNMEACmd)

theorem validateNMEAChecksum_makeNMEACmd_witness:
  "validateNMEAChecksum (makeNMEACmd ''PSRF100,1,38400,8,1,0'') = Inr ''PSRF100,1,38400,8,1,0''
   \<and> makeNMEACmd ''PSRF100,1,38400,8,1,0'' = ''$PSRF100,1,38400,8,1,0*3d'' @ [CHR 0x0D, CHR 0x0A]"
proof -
  have "validateNMEAChecksum (makeNMEACmd ''PSRF100,1,38400,8,1,0'') = Inr ''PSRF100,1,38400,8,1,0''"
    by (rule validateNMEAChecksum_makeNMEACmd) simp_all
  moreover have "makeNMEACmd ''PSRF100,1,38400,8,1,0'' = ''$PSRF100,1,38400,8,1,0*3d'' @ [CHR 0x0D, CHR 0x0A]"
    by (simp add: makeNMEACmd_def Sprintf_02x_def hexdigit_def byte_of_def)
  ultimately show ?thesis by simp
qed

section \<open>Properties of the accuracy derivation\<close>

lemma float32_constants_nearest:
  "(2::real) ^ 23 \<le> 12137267 \<and> (12137267::real) < 2 ^ 24 \<and> \<bar>92.6 - float32_92_6\<bar> < 1 / 2 ^ 18
   \<and> \<bar>185.2 - float32_185_2\<bar> < 1 / 2 ^ 17
   \<and> (2::real) ^ 23 \<le> 9102950 \<and> (9102950::real) < 2 ^ 24 \<and> \<bar>555.6 - float32_555_6\<bar> < 1 / 2 ^ 15"
  by (simp add: float32_92_6_def float32_185_2_def float32_555_6_def abs_if)

lemma float32_constants_order:
  "30 < float32_92_6" "float32_92_6 < float32_185_2" "float32_185_2 < float32_555_6"
  by (simp_all add: float32_92_6_def float32_185_2_def float32_555_6_def)

text \<open>
  Claim C7. \<open>calculateNACp\<close> is a function of the horizontal accuracy alone. It returns 11
  exactly for an accuracy below 3, 10 from 3 up to below 10, 9 from 10 up to below 30, 8 from
  30 up to below 92.6, 7 from there up to below 185.2, 6 from there up to below 555.6, and
  0 from 555.6 on (the last three thresholds as \<open>float32\<close> holds them). An accuracy equal
  to a threshold gets the lower class: 3.0 gives 10, not 11. A NaN and the positive
  infinity give 0.
\<close>

theorem calculateNACp_table:
  "(calculateNACp (Finite x) = 11) = (x < 3)
   \<and> (calculateNACp (Finite x) = 10) = (3 \<le> x \<and> x < 10)
   \<and> (calculateNACp (Finite x) = 9) = (10 \<le> x \<and> x < 30)
   \<and> (calculateNACp (Finite x) = 8) = (30 \<le> x \<and> x < float32_92_6)
   \<and> (calculateNACp (Finite x) = 7) = (float32_92_6 \<le> x \<and> x < float32_185_2)
   \<and> (calculateNACp (Finite x) = 6) = (float32_185_2 \<le> x \<and> x < float32_555_6)
   \<and> (calculateNACp (Finite x) = 0) = (float32_555_6 \<le> x)
   \<and> calculateNACp (Finite 3) = 10 \<and> calculateNACp (Finite 10) = 9
   \<and> calculateNACp (Finite 30) = 8 \<and> calculateNACp (Finite float32_92_6) = 7
   \<and> calculateNACp (Finite float32_185_2) = 6 \<and> calculateNACp (Finite float32_555_6) = 0
   \<and> calculateNACp NaN = 0 \<and> calculateNACp PosInf = 0 \<and> calculateNACp NegInf = 11"
  using float32_constants_order
  by (auto simp add: calculateNACp_def)

section \<open>Properties of the validity predicates\<close>

text \<open>
  Claim C3. \<open>isGPSValid\<close> returns true if and only if less than 15 seconds have passed
  since \<open>LastFixLocalTime\<close>, the GPS-connected flag is set and \<open>Quality\<close> is greater than 0;
  and whenever it returns false, it leaves \<open>Quality = 0\<close> and \<open>Satellites = 0\<close>, whatever
  the situation was before.
\<close>

theorem isGPSValid_iff:
  "fst (isGPSValid st) =
     (Since st (LastFixLocalTime (mySituation st)) < 15 * Second \<and> GPS_connected st
      \<and> 0 < Quality (mySituation st))
   \<and> (\<not> fst (isGPSValid st) \<longrightarrow>
        Quality (mySituation (snd (isGPSValid st))) = 0
        \<and> Satellites (mySituation (snd (isGPSValid st))) = 0)"
  by (simp add: isGPSValid_def)

text \<open>
  A fix of quality 1 with 7 satellites that is 20 seconds old, on a connected receiver:
  the verdict is false, and quality and satellites are zeroed.
\<close>

theorem isGPSValid_iff_witness:
  "\<not> fst (isGPSValid
       \<lparr>mySituation = SituationData_zero\<lparr>Quality := 1, Satellites := 7\<rparr>, Satellites_map = [],
        stratuxClock_Time = 20 * Second, GPS_connected = True\<rparr>)
   \<and> Quality (mySituation (snd (isGPSValid
       \<lparr>mySituation = SituationData_zero\<lparr>Quality := 1, Satellites := 7\<rparr>, Satellites_map = [],
        stratuxClock_Time = 20 * Second, GPS_connected = True\<rparr>))) = 0
   \<and> Satellites (mySituation (snd (isGPSValid
       \<lparr>mySituation = SituationData_zero\<lparr>Quality := 1, Satellites := 7\<rparr>, Satellites_map = [],
        stratuxClock_Time = 20 * Second, GPS_connected = True\<rparr>))) = 0"
proof -
  let ?st = "\<lparr>mySituation = SituationData_zero\<lparr>Quality := 1, Satellites := 7\<rparr>,
              Satellites_map = [], stratuxClock_Time = 20 * Second, GPS_connected = True\<rparr>"
  have "\<not> fst (isGPSValid ?st)"
    by (simp add: isGPSValid_def Since_def SituationData_zero_def Second_def)
  then show ?thesis
    using isGPSValid_iff [of ?st] by blast
qed

section \<open>Properties of the constellation tracker\<close>

lemma constellation_loop_counters:
  "snd (constellation_loop st es m (sats, tracked, seen)) =
     (sats + of_nat (length (filter (\<lambda>(k, s). fresh st s \<and> InSolution (aged st s)) es)),
      tracked + of_nat (length (filter (\<lambda>(k, s). fresh st s) es)),
      seen + of_nat (length (filter (\<lambda>(k, s). fresh st s \<and> 0 <s Signal s) es)))"
proof (induction es arbitrary: m sats tracked seen)
  case Nil
  show ?case by simp
next
  case (Cons e es)
  obtain k s where e: "e = (k, s)" by (cases e)
  show ?case
    by (simp add: e Cons.IH fresh_def aged_def Let_def)
qed

lemma delete_middle:
  "k \<notin> fst ` set p \<Longrightarrow> k \<notin> fst ` set r \<Longrightarrow> AList.delete k (p @ (k, v) # r) = p @ r"
  by (induction p) (auto simp add: AList.delete_eq image_iff filter_id_conv)

lemma update_middle:
  "k \<notin> fst ` set p \<Longrightarrow> AList.update k v' (p @ (k, v) # r) = p @ (k, v') # r"
  by (induction p) auto

lemma constellation_loop_map:
  "distinct (map fst (p @ es)) \<Longrightarrow>
   fst (constellation_loop st es (p @ es) c) =
     p @ map (\<lambda>(k, s). (k, aged st s)) (filter (\<lambda>(k, s). fresh st s) es)"
proof (induction es arbitrary: p c)
  case Nil
  show ?case by (cases c) simp
next
  case (Cons e es)
  obtain k s where e: "e = (k, s)" by (cases e)
  obtain sats tracked seen where c: "c = (sats, tracked, seen)" by (cases c)
  from Cons.prems have kp: "k \<notin> fst ` set p" and kr: "k \<notin> fst ` set es"
    and dp: "distinct (map fst (p @ es))"
    by (auto simp add: e)
  show ?case
  proof (cases "fresh st s")
    case False
    then show ?thesis
      using Cons.IH [OF dp] kp kr by (simp add: e c fresh_def delete_middle)
  next
    case True
    have d': "distinct (map fst ((p @ [(k, aged st s)]) @ es))"
      using Cons.prems by (simp add: e)
    have upd: "Since st (TimeLastSolution s) > 5 * Second \<Longrightarrow>
        AList.update k (s\<lparr>InSolution := False\<rparr>) (p @ (k, s) # es) = (p @ [(k, aged st s)]) @ es"
      using kp by (simp add: update_middle aged_def)
    have same: "\<not> Since st (TimeLastSolution s) > 5 * Second \<Longrightarrow>
        p @ (k, s) # es = (p @ [(k, aged st s)]) @ es"
      by (simp add: aged_def)
    show ?thesis
    proof (cases "Since st (TimeLastSolution s) > 5 * Second")
      case old: True
      show ?thesis
        using True old Cons.IH [OF d'] upd [OF old]
        by (simp add: e c fresh_def Let_def)
    next
      case young: False
      show ?thesis
        using True young Cons.IH [OF d'] same [OF young]
        by (simp add: e c fresh_def Let_def)
    qed
  qed
qed

lemma updateConstellation_map:
  assumes "distinct (map fst (Satellites_map st))"
  shows "Satellites_map (updateConstellation st) =
           map (\<lambda>(k, s). (k, aged st s)) (filter (\<lambda>(k, s). fresh st s) (Satellites_map st))"
proof -
  obtain m c where r: "constellation_loop st (Satellites_map st) (Satellites_map st) (0, 0, 0) = (m, c)"
    by (cases "constellation_loop st (Satellites_map st) (Satellites_map st) (0, 0, 0)")
  have "m = map (\<lambda>(k, s). (k, aged st s)) (filter (\<lambda>(k, s). fresh st s) (Satellites_map st))"
    using constellation_loop_map [of "[]" "Satellites_map st" st "(0, 0, 0)"] assms r by simp
  then show ?thesis
    by (simp add: updateConstellation_def r split: prod.splits)
qed

lemma updateConstellation_counters:
  "Satellites (mySituation (updateConstellation st)) =
     ucast (of_nat (length (filter (\<lambda>(k, s). fresh st s \<and> InSolution (aged st s)) (Satellites_map st))) :: 8 word)
   \<and> SatellitesTracked (mySituation (updateConstellation st)) =
     ucast (of_nat (length (filter (\<lambda>(k, s). fresh st s) (Satellites_map st))) :: 8 word)
   \<and> SatellitesSeen (mySituation (updateConstellation st)) =
     ucast (of_nat (length (filter (\<lambda>(k, s). fresh st s \<and> 0 <s Signal s) (Satellites_map st))) :: 8 word)"
proof -
  obtain m c where r: "constellation_loop st (Satellites_map st) (Satellites_map st) (0, 0, 0) = (m, c)"
    by (cases "constellation_loop st (Satellites_map st) (Satellites_map st) (0, 0, 0)")
  have "c = (of_nat (length (filter (\<lambda>(k, s). fresh st s \<and> InSolution (aged st s)) (Satellites_map st))),
             of_nat (length (filter (\<lambda>(k, s). fresh st s) (Satellites_map st))),
             of_nat (length (filter (\<lambda>(k, s). fresh st s \<and> 0 <s Signal s) (Satellites_map st))))"
    using constellation_loop_counters [of st "Satellites_map st" "Satellites_map st" 0 0 0] r
    by simp
  then show ?thesis
    by (simp add: updateConstellation_def r)
qed

lemma unat_ucast_8_16: "unat (ucast (of_nat n :: 8 word) :: 16 word) = n mod 256"
  by (simp add: unsigned_ucast_eq take_bit_eq_mod unat_of_nat)

text \<open>
  Claim C4, as amended. After \<open>updateConstellation\<close> has run on a map with one entry per
  key: no entry whose \<open>TimeLastTracked\<close> is more than 10 seconds old remains; every
  remaining entry whose \<open>TimeLastSolution\<close> is more than 5 seconds old has \<open>InSolution\<close>
  false; and the counters \<open>Satellites\<close>, \<open>SatellitesTracked\<close> and \<open>SatellitesSeen\<close> equal,
  modulo 256, the number of remaining entries in the solution, the number of remaining
  entries, and the number of remaining entries with \<open>Signal > 0\<close> (the tallies are 8-bit
  counters, so the numbers themselves whenever fewer than 256 entries remain).
\<close>

theorem updateConstellation_maintenance:
  assumes "distinct (map fst (Satellites_map st))" and "st' = updateConstellation st"
  shows "(\<forall>(k, s) \<in> set (Satellites_map st'). \<not> Since st' (TimeLastTracked s) > 10 * Second)
    \<and> (\<forall>(k, s) \<in> set (Satellites_map st').
          Since st' (TimeLastSolution s) > 5 * Second \<longrightarrow> \<not> InSolution s)
    \<and> unat (Satellites (mySituation st')) =
          length (filter (\<lambda>(k, s). InSolution s) (Satellites_map st')) mod 256
    \<and> unat (SatellitesTracked (mySituation st')) = length (Satellites_map st') mod 256
    \<and> unat (SatellitesSeen (mySituation st')) =
          length (filter (\<lambda>(k, s). 0 <s Signal s) (Satellites_map st')) mod 256
    \<and> distinct (map fst (Satellites_map st'))"
proof -
  let ?m = "Satellites_map st"
  have m': "Satellites_map st' = map (\<lambda>(k, s). (k, aged st s)) (filter (\<lambda>(k, s). fresh st s) ?m)"
    using assms by (simp add: updateConstellation_map)
  have clock: "Since st' = Since st"
    by (rule ext) (simp add: Since_def assms(2) updateConstellation_def split: prod.splits)
  have a: "\<forall>(k, s) \<in> set (Satellites_map st'). \<not> Since st' (TimeLastTracked s) > 10 * Second"
    by (auto simp add: m' clock fresh_def aged_def)
  have b: "\<forall>(k, s) \<in> set (Satellites_map st').
          Since st' (TimeLastSolution s) > 5 * Second \<longrightarrow> \<not> InSolution s"
    by (auto simp add: m' clock aged_def)
  have f1: "filter (\<lambda>(k, s). InSolution s) (Satellites_map st') =
      map (\<lambda>(k, s). (k, aged st s)) (filter (\<lambda>(k, s). fresh st s \<and> InSolution (aged st s)) ?m)"
    by (simp add: m' filter_map comp_def case_prod_unfold conj_commute)
  have f3: "filter (\<lambda>(k, s). 0 <s Signal s) (Satellites_map st') =
      map (\<lambda>(k, s). (k, aged st s)) (filter (\<lambda>(k, s). fresh st s \<and> 0 <s Signal s) ?m)"
    by (simp add: m' filter_map comp_def case_prod_unfold conj_commute aged_def)
  note cnt = updateConstellation_counters [of st]
  have "unat (Satellites (mySituation st')) =
          length (filter (\<lambda>(k, s). fresh st s \<and> InSolution (aged st s)) ?m) mod 256"
    using cnt by (simp add: assms(2) unat_ucast_8_16)
  then have c: "unat (Satellites (mySituation st')) =
          length (filter (\<lambda>(k, s). InSolution s) (Satellites_map st')) mod 256"
    by (simp only: f1 length_map)
  have "unat (SatellitesTracked (mySituation st')) =
          length (filter (\<lambda>(k, s). fresh st s) ?m) mod 256"
    using cnt by (simp add: assms(2) unat_ucast_8_16)
  then have d: "unat (SatellitesTracked (mySituation st')) = length (Satellites_map st') mod 256"
    by (simp only: m' length_map)
  have "unat (SatellitesSeen (mySituation st')) =
          length (filter (\<lambda>(k, s). fresh st s \<and> 0 <s Signal s) ?m) mod 256"
    using cnt by (simp add: assms(2) unat_ucast_8_16)
  then have e: "unat (SatellitesSeen (mySituation st')) =
          length (filter (\<lambda>(k, s). 0 <s Signal s) (Satellites_map st')) mod 256"
    by (simp only: f3 length_map)
  have "map fst (Satellites_map st') = map fst (filter (\<lambda>(k, s). fresh st s) ?m)"
    by (simp add: m' case_prod_unfold comp_def)
  then have f: "distinct (map fst (Satellites_map st'))"
    using assms(1) by (simp add: distinct_map_filter)
  from a b c d e f show ?thesis by blast
qed

text \<open>
  On \<open>three_sats\<close> the tracker drops \<open>S133\<close>, keeps \<open>G5\<close> in the solution and takes \<open>G7\<close>
  out of it.
\<close>

theorem updateConstellation_maintenance_witness:
  "distinct (map fst (Satellites_map three_sats))
   \<and> map fst (Satellites_map (updateConstellation three_sats)) = [''G5'', ''G7'']
   \<and> map (\<lambda>(k, s). InSolution s) (Satellites_map (updateConstellation three_sats)) = [True, False]
   \<and> unat (Satellites (mySituation (updateConstellation three_sats))) = 1
   \<and> unat (SatellitesTracked (mySituation (updateConstellation three_sats))) = 2
   \<and> unat (SatellitesSeen (mySituation (updateConstellation three_sats))) = 1"
proof -
  have d: "distinct (map fst (Satellites_map three_sats))"
    by (simp add: three_sats_def)
  have m: "Satellites_map (updateConstellation three_sats) =
      [(''G5'', \<lparr>SatelliteNMEA = 5, SatelliteID = ''G5'', Elevation = 40, Azimuth = 120,
                   Signal = 30, Type = SAT_TYPE_GPS, TimeLastSolution = 19 * Second,
                   TimeLastSeen = 19 * Second, TimeLastTracked = 19 * Second,
                   InSolution = True\<rparr>),
       (''G7'', \<lparr>SatelliteNMEA = 7, SatelliteID = ''G7'', Elevation = 10, Azimuth = 300,
                   Signal = 0, Type = SAT_TYPE_GPS, TimeLastSolution = 12 * Second,
                   TimeLastSeen = 12 * Second, TimeLastTracked = 18 * Second,
                   InSolution = False\<rparr>)]"
    by (simp add: updateConstellation_def three_sats_def Since_def Second_def Let_def)
  show ?thesis
    using updateConstellation_maintenance [OF d refl] d
    by (simp add: m word_sless_alt)
qed

lemma digit_char_val: "n < 10 \<Longrightarrow> (of_char (''0123456789'' ! n) :: nat) = 48 + n"
proof -
  assume "n < 10"
  then have "n = 0 \<or> n = 1 \<or> n = 2 \<or> n = 3 \<or> n = 4 \<or> n = 5 \<or> n = 6 \<or> n = 7 \<or> n = 8 \<or> n = 9"
    by arith
  then show ?thesis by (elim disjE) simp_all
qed

lemma digits_number:
  "foldl (\<lambda>a c. 10 * a + ((of_char c :: nat) - 48)) 0 (digits n) = n"
proof (induction n rule: digits.induct)
  case (1 n)
  show ?case
  proof (cases "n < 10")
    case True
    have "digits n = [''0123456789'' ! n]"
      using True by (subst digits.simps) simp
    then show ?thesis using True by (simp add: digit_char_val)
  next
    case False
    have d: "digits n = digits (n div 10) @ [''0123456789'' ! (n mod 10)]"
      using False by (subst digits.simps) simp
    have m: "(of_char (''0123456789'' ! (n mod 10)) :: nat) = 48 + n mod 10"
      by (rule digit_char_val) simp
    have "foldl (\<lambda>a c. 10 * a + ((of_char c :: nat) - 48)) 0 (digits n)
          = 10 * (n div 10) + n mod 10"
      using "1.IH" [OF False] by (simp only: d foldl_append foldl.simps m)
    then show ?thesis by simp
  qed
qed

lemma digits_inj: "digits a = digits b \<Longrightarrow> a = b"
proof -
  assume "digits a = digits b"
  then have "foldl (\<lambda>a c. 10 * a + ((of_char c :: nat) - 48)) 0 (digits a)
      = foldl (\<lambda>a c. 10 * a + ((of_char c :: nat) - 48)) 0 (digits b)"
    by (rule arg_cong)
  then show "a = b" by (simp only: digits_number)
qed

lemma crowded_sky_distinct: "distinct (map fst (Satellites_map crowded_sky))"
proof -
  have "inj (\<lambda>n. ''U'' @ Sprintf_d (int n))"
    by (rule injI) (simp add: Sprintf_d_def digits_inj)
  then have "inj_on (\<lambda>n. ''U'' @ Sprintf_d (int n)) (set [97 ..< 353])"
    by (rule inj_on_subset) simp
  then have "distinct (map (\<lambda>n. ''U'' @ Sprintf_d (int n)) [97 ..< 353])"
    by (simp only: distinct_map distinct_upt)
  then show ?thesis
    by (simp add: crowded_sky_def initRY835AI_def comp_def del: upt_rec_numeral)
qed

lemma crowded_sky_fresh:
  "filter (\<lambda>(k, s). fresh crowded_sky s) (Satellites_map crowded_sky) = Satellites_map crowded_sky"
proof -
  have "\<forall>e \<in> set (Satellites_map crowded_sky). (\<lambda>(k, s). fresh crowded_sky s) e"
    by (auto simp add: crowded_sky_def initRY835AI_def fresh_def Since_def SatelliteInfo_zero_def
        Second_def simp del: upt_rec_numeral)
  then show ?thesis by (simp only: filter_True)
qed

lemma crowded_sky_length: "length (Satellites_map crowded_sky) = 256"
  by (simp add: crowded_sky_def initRY835AI_def del: upt_rec_numeral)

text \<open>
  The claim as stated, with the counters equal to the numbers themselves, fails on a map
  of 256 tracked satellites: all 256 entries remain and \<open>SatellitesTracked\<close> is 0.
\<close>

theorem updateConstellation_counterexample:
  "distinct (map fst (Satellites_map crowded_sky))
   \<and> length (Satellites_map (updateConstellation crowded_sky)) = 256
   \<and> SatellitesTracked (mySituation (updateConstellation crowded_sky)) = 0"
proof -
  have "length (Satellites_map (updateConstellation crowded_sky)) = 256"
    by (simp only: updateConstellation_map [OF crowded_sky_distinct] crowded_sky_fresh
        crowded_sky_length length_map)
  moreover have "SatellitesTracked (mySituation (updateConstellation crowded_sky)) = 0"
    using updateConstellation_counters [of crowded_sky]
    by (simp add: crowded_sky_fresh crowded_sky_length)
  ultimately show ?thesis using crowded_sky_distinct by simp
qed

section \<open>Properties of the sentence parser\<close>

lemmas codec_defs = validateNMEAChecksum_def HasPrefix_def Contains_def TrimPrefix_def
  ParseUint_16_8_def hexval_def byte_of_def

lemmas strconv_defs = Atoi_def digit_val_def intSize_def wrap_int_def Sprintf_d_def digits.simps

lemmas satellite_defs = lookup_satellite_def store_satellite_def sv_ident_def
  updateConstellation_def Since_def Second_def SatelliteInfo_zero_def
  SAT_TYPE_GPS_def SAT_TYPE_SBAS_def SAT_TYPE_GLONASS_def SAT_TYPE_UNKNOWN_def

lemmas pubx03_defs = pubx03_def pubx03_loop.simps pubx03_block_def pubx03_satellite_def
  pubx03_record_def index_def

text \<open>
  Claim C10 says that \<open>processNMEALine\<close> returns a boolean for every input line. On the
  checksum-valid line \<open>$PUBX*1F\<close> the dispatch reads \<open>x[1]\<close> of a one-element slice, and
  on a \<open>PUBX,04\<close> line of four fields the clock handler reads \<open>x[5]\<close>: both reads are out
  of range, whatever the state and the library.
\<close>

theorem processNMEALine_PUBX_short_panics:
  "processNMEALine L ''$PUBX*1F'' st = Inl IndexOutOfRange
   \<and> processNMEALine L ''$PUBX,04,093548.00,191115*16'' st = Inl IndexOutOfRange"
  by (simp add: processNMEALine_def codec_defs index_def pubx04_def Let_def)

text \<open>
  A third way to the same panic: a \<open>PUBX,03\<close> count so large that \<open>satTracked*6 + 3\<close> wraps
  to 5 passes the length test, and the loop reads past the end.
\<close>

lemma processNMEALine_PUBX03_wrap_panics:
  "processNMEALine L ''$PUBX,03,3074457345618258603,5,U*4D'' st = Inl IndexOutOfRange"
  by (simp add: processNMEALine_def codec_defs strconv_defs pubx03_defs Let_def)

text \<open>
  Claim C1 says that a rejected sentence leaves every field of the GPS sub-record but the
  two \<open>LastValidNMEAMessage\<close> fields as it was, and in particular that a \<open>PUBX,03\<close> sentence
  whose i-th satellite number does not parse leaves \<open>SatellitesTracked\<close> and the satellite
  map unchanged. At start-up, the sentence below (two satellites announced, the second
  with the number \<open>xx\<close>) is rejected; \<open>G5\<close> has been added to the map, and \<open>Satellites\<close>,
  \<open>SatellitesTracked\<close> and \<open>SatellitesSeen\<close> have gone from 0 to 1.
\<close>

theorem processNMEALine_PUBX03_rejected_changes:
  "processNMEALine L ''$PUBX,03,2,5,U,120,40,30,10,xx,-,,,,*56'' initRY835AI =
     Inr (False,
       initRY835AI
         \<lparr>mySituation := SituationData_zero
            \<lparr>Satellites := 1, SatellitesTracked := 1, SatellitesSeen := 1,
             LastValidNMEAMessage := ''$PUBX,03,2,5,U,120,40,30,10,xx,-,,,,*56''\<rparr>,
          Satellites_map :=
            [(''G5'', \<lparr>SatelliteNMEA = 5, SatelliteID = ''G5'', Elevation = 40, Azimuth = 120,
                       Signal = 30, Type = SAT_TYPE_GPS, TimeLastSolution = 0, TimeLastSeen = 0,
                       TimeLastTracked = 0, InSolution = True\<rparr>)]\<rparr>)"
  by (simp add: processNMEALine_def codec_defs strconv_defs pubx03_defs satellite_defs Let_def
      initRY835AI_def SituationData_zero_def word_sless_alt)

text \<open>
  Claim C6 says that a stored signal is \<open>-999\<close>, \<open>-99\<close> or between 0 and 127, a signal of
  128 or more on the wire being stored as 127. The \<open>PUBX,03\<close> handler stores \<open>int8(cno)\<close>
  as it is: the sentence below, with the signal 128, is accepted and \<open>G5\<close> is stored with
  the signal \<open>-128\<close>.
\<close>

theorem processNMEALine_PUBX03_signal_128:
  "processNMEALine L ''$PUBX,03,1,5,U,120,40,128,10*40'' initRY835AI =
     Inr (True,
       initRY835AI
         \<lparr>mySituation := SituationData_zero
            \<lparr>Satellites := 1, SatellitesTracked := 1, SatellitesSeen := 0,
             LastValidNMEAMessage := ''$PUBX,03,1,5,U,120,40,128,10*40''\<rparr>,
          Satellites_map :=
            [(''G5'', \<lparr>SatelliteNMEA = 5, SatelliteID = ''G5'', Elevation = 40, Azimuth = 120,
                       Signal = word_of_int (- 128), Type = SAT_TYPE_GPS, TimeLastSolution = 0,
                       TimeLastSeen = 0, TimeLastTracked = 0, InSolution = True\<rparr>)]\<rparr>)
   \<and> sint (word_of_int (- 128) :: 8 word) = - 128"
  by (simp add: processNMEALine_def codec_defs strconv_defs pubx03_defs satellite_defs Let_def
      initRY835AI_def SituationData_zero_def word_sless_alt)

subsection \<open>The SBAS rule of the \<open>GSV\<close> handler\<close>

lemmas gsv_defs = gsv_def gsv_loop.simps gsv_satellite_def gsv_record_def

text \<open>
  The flags of an SBAS record as the block computes them, before the record is stored and
  the tracker runs.
\<close>

lemma gsv_record_flags:
  assumes "r = gsv_record sv elev_txt az_txt cno_txt st"
    and "prior = lookup_satellite st (snd (sv_ident sv)) sv (fst (sv_ident sv))"
    and "Type r = SAT_TYPE_SBAS"
  shows "(Quality (mySituation st) = 2 \<and> 16 <s Signal r \<longrightarrow>
            InSolution r \<and> TimeLastSolution r = stratuxClock_Time st)
    \<and> (Quality (mySituation st) \<noteq> 2 \<longrightarrow> \<not> InSolution r)
    \<and> (Quality (mySituation st) = 2 \<and> \<not> 16 <s Signal r \<longrightarrow>
          InSolution r = (InSolution prior \<and> Atoi cno_txt \<noteq> None)
          \<and> TimeLastSolution r = TimeLastSolution prior)"
proof -
  obtain svType svStr where id: "sv_ident sv = (svType, svStr)"
    by (cases "sv_ident sv")
  have p: "prior = lookup_satellite st svStr sv svType"
    using assms(2) by (simp add: id)
  show ?thesis
  proof (cases "Atoi cno_txt")
    case None
    then show ?thesis
      using assms(1,3) by (simp add: gsv_record_def id p [symmetric] Let_def split: if_splits)
  next
    case (Some c)
    then show ?thesis
      using assms(1,3) by (simp add: gsv_record_def id p [symmetric] Let_def split: if_splits)
  qed
qed

text \<open>
  The signal the \<open>GSV\<close> handler stores: \<open>-99\<close> for a field that does not parse, 127 for a
  number above 127, and \<open>int8\<close> of the number otherwise.
\<close>

lemma gsv_record_Signal:
  "Signal (gsv_record sv elev_txt az_txt cno_txt st) =
     (case Atoi cno_txt of
        None \<Rightarrow> word_of_int (- 99)
      | Some c \<Rightarrow> if c > 127 then 127 else word_of_int c)"
  by (simp add: gsv_record_def Let_def split: prod.splits option.splits)

lemma gsv_record_TimeLastTracked:
  "TimeLastTracked (gsv_record sv elev_txt az_txt cno_txt st) = stratuxClock_Time st"
  by (simp add: gsv_record_def Let_def split: prod.splits option.splits)

lemma map_of_tracked:
  "distinct (map fst m) \<Longrightarrow>
   map_of (map (\<lambda>(k, s). (k, g s)) (filter (\<lambda>(k, s). P s) m)) k =
     (case map_of m k of None \<Rightarrow> None | Some s \<Rightarrow> if P s then Some (g s) else None)"
proof (induction m)
  case Nil
  show ?case by simp
next
  case (Cons e m)
  obtain k' s' where e: "e = (k', s')" by (cases e)
  have "k' \<notin> fst ` set m" using Cons.prems by (simp add: e)
  then have none: "map_of m k' = None" by (simp add: map_of_eq_None_iff)
  show ?case
    using Cons none by (auto simp add: e)
qed

text \<open>
  The record \<open>gsv_record\<close> computes is the one found in the map afterwards, under its
  identifier, aged by the tracker.
\<close>

lemma gsv_satellite_stored:
  assumes "distinct (map fst (Satellites_map st))"
    and "r = gsv_record sv elev_txt az_txt cno_txt st"
  shows "map_of (Satellites_map (gsv_satellite sv elev_txt az_txt cno_txt st)) (SatelliteID r)
         = Some (aged st r)"
proof -
  let ?st1 = "st\<lparr>Satellites_map := AList.update (SatelliteID r) r (Satellites_map st)\<rparr>"
  have d: "distinct (map fst (Satellites_map ?st1))"
    using assms(1) by (simp add: distinct_update)
  have fr: "fresh ?st1 r"
    by (simp add: fresh_def Since_def assms(2) gsv_record_TimeLastTracked Second_def)
  have ag: "aged ?st1 r = aged st r"
    by (simp add: aged_def Since_def)
  have d': "distinct (map fst (AList.update (SatelliteID r) r (Satellites_map st)))"
    using assms(1) by (simp add: distinct_update)
  have "map_of (Satellites_map (updateConstellation ?st1)) (SatelliteID r) = Some (aged ?st1 r)"
    using fr by (simp add: updateConstellation_map [OF d] map_of_tracked [OF d'] update_conv')
  then show ?thesis
    by (simp add: gsv_satellite_def store_satellite_def assms(2) [symmetric] ag)
qed

text \<open>
  Claim C5, as amended. For every satellite record of family SBAS processed from a
  \<open>GPGSV\<close>/\<open>GLGSV\<close> sentence, the record found in the map when the handler's block for
  it ends (the record has been stored and the constellation tracker has run) is this:
  if the fix quality is 2 and the stored signal is greater than 16, it is in the solution
  and its \<open>TimeLastSolution\<close> is the current time; if the quality is not 2, it is not in
  the solution; and if the quality is 2 and the stored signal is at most 16, its
  \<open>TimeLastSolution\<close> is the previous one, and it is in the solution exactly if the
  record was in the solution before, the signal field is a number, and the previous
  \<open>TimeLastSolution\<close> is not more than 5 seconds old.
\<close>

theorem gsv_satellite_sbas:
  assumes "distinct (map fst (Satellites_map st))"
    and "r = gsv_record sv elev_txt az_txt cno_txt st"
    and "prior = lookup_satellite st (snd (sv_ident sv)) sv (fst (sv_ident sv))"
    and "Type r = SAT_TYPE_SBAS"
    and "st' = gsv_satellite sv elev_txt az_txt cno_txt st"
  shows "\<exists>s. map_of (Satellites_map st') (SatelliteID r) = Some s
      \<and> Type s = SAT_TYPE_SBAS \<and> Signal s = Signal r
      \<and> (Quality (mySituation st) = 2 \<and> 16 <s Signal s \<longrightarrow>
            InSolution s \<and> TimeLastSolution s = stratuxClock_Time st)
      \<and> (Quality (mySituation st) \<noteq> 2 \<longrightarrow> \<not> InSolution s)
      \<and> (Quality (mySituation st) = 2 \<and> \<not> 16 <s Signal s \<longrightarrow>
            InSolution s =
              (InSolution prior \<and> Atoi cno_txt \<noteq> None
               \<and> \<not> Since st (TimeLastSolution prior) > 5 * Second)
            \<and> TimeLastSolution s = TimeLastSolution prior)"
proof -
  note rec = gsv_record_flags [OF assms(2) assms(3) assms(4)]
  have stored: "map_of (Satellites_map st') (SatelliteID r) = Some (aged st r)"
    using gsv_satellite_stored [OF assms(1) assms(2)] by (simp add: assms(5))
  have ty: "Type (aged st r) = SAT_TYPE_SBAS" and sg: "Signal (aged st r) = Signal r"
    and tl: "TimeLastSolution (aged st r) = TimeLastSolution r"
    using assms(4) by (simp_all add: aged_def)
  have ins: "InSolution (aged st r) = (InSolution r \<and> \<not> Since st (TimeLastSolution r) > 5 * Second)"
    by (simp add: aged_def)
  have now: "\<not> Since st (stratuxClock_Time st) > 5 * Second"
    by (simp add: Since_def Second_def)
  have a: "Quality (mySituation st) = 2 \<and> 16 <s Signal (aged st r) \<longrightarrow>
            InSolution (aged st r) \<and> TimeLastSolution (aged st r) = stratuxClock_Time st"
    using rec now by (simp add: sg tl ins)
  have b: "Quality (mySituation st) \<noteq> 2 \<longrightarrow> \<not> InSolution (aged st r)"
    using rec by (simp add: ins)
  have c: "Quality (mySituation st) = 2 \<and> \<not> 16 <s Signal (aged st r) \<longrightarrow>
            InSolution (aged st r) =
              (InSolution prior \<and> Atoi cno_txt \<noteq> None
               \<and> \<not> Since st (TimeLastSolution prior) > 5 * Second)
            \<and> TimeLastSolution (aged st r) = TimeLastSolution prior"
    using rec by (auto simp add: sg tl ins)
  from stored ty sg a b c show ?thesis by blast
qed

text \<open>
  With quality 2, a \<open>GSV\<close> block for NMEA number 46 with signal 25 leaves \<open>S133\<close> in the
  map in the solution, with the current time as \<open>TimeLastSolution\<close>.
\<close>

theorem gsv_satellite_sbas_witness:
  "distinct (map fst (Satellites_map sbas_fix))
   \<and> Type (gsv_record 46 ''30'' ''180'' ''25'' sbas_fix) = SAT_TYPE_SBAS
   \<and> SatelliteID (gsv_record 46 ''30'' ''180'' ''25'' sbas_fix) = ''S133''
   \<and> Quality (mySituation sbas_fix) = 2
   \<and> (\<exists>s. map_of (Satellites_map (gsv_satellite 46 ''30'' ''180'' ''25'' sbas_fix)) ''S133'' = Some s
          \<and> Signal s = 25 \<and> InSolution s \<and> TimeLastSolution s = 20 * Second)"
proof -
  let ?r = "gsv_record 46 ''30'' ''180'' ''25'' sbas_fix"
  have d: "distinct (map fst (Satellites_map sbas_fix))"
    by (simp add: sbas_fix_def)
  have t: "Type ?r = SAT_TYPE_SBAS" and i: "SatelliteID ?r = ''S133''"
    and q: "Quality (mySituation sbas_fix) = 2"
    and s: "Signal ?r = 25" and c: "stratuxClock_Time sbas_fix = 20 * Second"
    by (simp_all add: gsv_record_def satellite_defs strconv_defs sbas_fix_def Let_def
        word_sless_alt)
  have g: "16 <s (25 :: 8 word)" by (simp add: word_sless_alt)
  from gsv_satellite_sbas [OF d refl refl t refl]
  have "\<exists>s. map_of (Satellites_map (gsv_satellite 46 ''30'' ''180'' ''25'' sbas_fix)) ''S133'' = Some s
          \<and> Signal s = 25 \<and> InSolution s \<and> TimeLastSolution s = 20 * Second"
    using g by (auto simp add: i q s c)
  with d t i q show ?thesis by blast
qed

text \<open>
  The claim as stated has the flag cleared in every other case. With quality 2 and
  \<open>S133\<close> in the solution one second ago, a \<open>GSV\<close> sentence that reports it with signal 10
  is accepted and leaves it in the solution.
\<close>

theorem gsv_sbas_counterexample:
  "processNMEALine exact_lib ''$GPGSV,1,1,01,46,30,180,10*41'' sbas_fix =
     Inr (True,
       sbas_fix
         \<lparr>mySituation := (mySituation sbas_fix)
            \<lparr>LastValidNMEAMessageTime := 20 * Second,
             LastValidNMEAMessage := ''$GPGSV,1,1,01,46,30,180,10*41''\<rparr>,
          Satellites_map :=
            [(''S133'', \<lparr>SatelliteNMEA = 46, SatelliteID = ''S133'', Elevation = 30, Azimuth = 180,
                         Signal = 10, Type = SAT_TYPE_SBAS, TimeLastSolution = 19 * Second,
                         TimeLastSeen = 20 * Second, TimeLastTracked = 20 * Second,
                         InSolution = True\<rparr>)]\<rparr>)
   \<and> Quality (mySituation sbas_fix) = 2"
  by (simp add: processNMEALine_def codec_defs strconv_defs gsv_defs satellite_defs Let_def
      sbas_fix_def SituationData_zero_def word_sless_alt)

text \<open>
  The tracker's part in the third case: five seconds later \<open>S133\<close> was last in a solution
  six seconds ago, and the same sentence leaves it out of the solution, although its
  signal field is a number.
\<close>

lemma gsv_sbas_aged_example:
  "processNMEALine exact_lib ''$GPGSV,1,1,01,46,30,180,10*41''
     (sbas_fix\<lparr>stratuxClock_Time := 25 * Second\<rparr>) =
     Inr (True,
       sbas_fix
         \<lparr>mySituation := (mySituation sbas_fix)
            \<lparr>Satellites := 0,
             LastValidNMEAMessageTime := 25 * Second,
             LastValidNMEAMessage := ''$GPGSV,1,1,01,46,30,180,10*41''\<rparr>,
          Satellites_map :=
            [(''S133'', \<lparr>SatelliteNMEA = 46, SatelliteID = ''S133'', Elevation = 30, Azimuth = 180,
                         Signal = 10, Type = SAT_TYPE_SBAS, TimeLastSolution = 19 * Second,
                         TimeLastSeen = 25 * Second, TimeLastTracked = 25 * Second,
                         InSolution = False\<rparr>)],
          stratuxClock_Time := 25 * Second\<rparr>)"
  by (simp add: processNMEALine_def codec_defs strconv_defs gsv_defs satellite_defs Let_def
      sbas_fix_def SituationData_zero_def word_sless_alt)

subsection \<open>The satellite count of the \<open>GSA\<close> handler\<close>

lemmas gsa_defs = gsa_def gsa_loop.simps gsa_satellite_def gsa_count_def gsa_fields_def commit_def

lemmas exact_lib_defs = exact_lib_def decimal_ParseFloat_def

lemma gsa_loop_counts:
  "snd (gsa_loop fs st (sat, svSBAS, svGLONASS)) =
     (sat + int (length (List.map_filter Atoi fs)),
      svSBAS \<or> (\<exists>sv \<in> set (List.map_filter Atoi fs). 33 \<le> sv \<and> sv < 65),
      svGLONASS \<or> (\<exists>sv \<in> set (List.map_filter Atoi fs). 65 \<le> sv \<and> sv < 97))"
proof (induction fs arbitrary: st sat svSBAS svGLONASS)
  case Nil
  show ?case by (simp add: map_filter_simps)
next
  case (Cons f fs)
  show ?case
  proof (cases "Atoi f")
    case None
    then show ?thesis by (simp add: Cons.IH map_filter_simps)
  next
    case (Some sv)
    then show ?thesis by (auto simp add: Cons.IH map_filter_simps)
  qed
qed

lemma gsa_fields_Satellites:
  "gsa_fields L x tmp = Some tmp' \<Longrightarrow> Satellites tmp' = Satellites tmp"
  by (auto simp add: gsa_fields_def Let_def split: Option.bind_splits if_splits)

lemma gsa_accepted_Satellites:
  assumes "gsa L x st = (True, st')"
    and "ids = List.map_filter Atoi (take 12 (drop 3 x))"
  shows "Satellites (mySituation st') =
     Satellites (gsa_count (mySituation st) (int (length ids))
       (\<exists>sv \<in> set ids. 33 \<le> sv \<and> sv < 65) (\<exists>sv \<in> set ids. 65 \<le> sv \<and> sv < 97))"
proof -
  obtain st1 sat svSBAS svGLONASS where
    loop: "gsa_loop (take 12 (drop 3 x)) st (0, False, False) = (st1, sat, svSBAS, svGLONASS)"
    by (cases "gsa_loop (take 12 (drop 3 x)) st (0, False, False)") auto
  have c: "(sat, svSBAS, svGLONASS) =
      (int (length ids), (\<exists>sv \<in> set ids. 33 \<le> sv \<and> sv < 65), (\<exists>sv \<in> set ids. 65 \<le> sv \<and> sv < 97))"
    using gsa_loop_counts [of "take 12 (drop 3 x)" st 0 False False] loop assms(2) by simp
  from assms(1) obtain tmp' where
    f: "gsa_fields L x (gsa_count (mySituation st) sat svSBAS svGLONASS) = Some tmp'"
    and st': "st' = st1\<lparr>mySituation := tmp'\<rparr>"
    by (auto simp add: gsa_def commit_def loop Let_def split: if_splits option.splits)
  show ?thesis
    using gsa_fields_Satellites [OF f] c by (simp add: st')
qed

text \<open>
  Claim C2, as amended. For every accepted \<open>GNGSA\<close>/\<open>GPGSA\<close> sentence, with \<open>ids\<close> the
  numbers in fields 3 to 14: when fewer than 12 ids are present, or the \<open>Satellites\<close>
  counter of the situation was below 13 before the sentence, \<open>Satellites\<close> is set to the
  number of ids, plus 1 when the quality is 2 and the ids include neither an SBAS number
  (33 to 64) nor a GLONASS number (65 to 96); otherwise \<open>Satellites\<close> is left as it was.
\<close>

theorem gsa_satellites_count:
  assumes "validateNMEAChecksum l = Inr p" and "x = Split p (CHR '','')"
    and "x ! 0 = ''GNGSA'' \<or> x ! 0 = ''GPGSA''"
    and "processNMEALine L l st = Inr (True, st')"
    and "ids = List.map_filter Atoi (take 12 (drop 3 x))"
    and "svSBAS = (\<exists>sv \<in> set ids. 33 \<le> sv \<and> sv < 65)"
    and "svGLONASS = (\<exists>sv \<in> set ids. 65 \<le> sv \<and> sv < 97)"
  shows "Satellites (mySituation st') =
     (if length ids < 12 \<or> Satellites (mySituation st) < 13
      then of_nat (length ids)
           + (if Quality (mySituation st) = 2 \<and> \<not> svSBAS \<and> \<not> svGLONASS then 1 else 0)
      else Satellites (mySituation st))"
proof -
  let ?st1 = "st\<lparr>mySituation := (mySituation st)
      \<lparr>LastValidNMEAMessageTime := stratuxClock_Time st, LastValidNMEAMessage := l\<rparr>\<rparr>"
  have "gsa L x ?st1 = (True, st')"
    using assms(1-4) by (auto simp add: processNMEALine_def Let_def)
  from gsa_accepted_Satellites [OF this assms(5)] show ?thesis
    by (auto simp add: gsa_count_def Let_def assms(6,7))
qed

text \<open>
  The specification's scenario: at quality 2, a sentence with seven GPS numbers and
  no SBAS number is accepted and leaves \<open>Satellites = 8\<close>.
\<close>

lemma gsa_seven_accepted:
  "\<exists>st'. processNMEALine exact_lib ''$GPGSA,A,3,01,02,03,04,05,06,07,,,,,,1.5,1.0,1.2*34''
          dgps_start = Inr (True, st')"
  by (simp add: processNMEALine_def codec_defs strconv_defs gsa_defs satellite_defs
      exact_lib_defs Let_def dgps_start_def initRY835AI_def SituationData_zero_def
      calculateNACp_def word_sless_alt)

theorem gsa_satellites_count_witness:
  "\<exists>st'. processNMEALine exact_lib ''$GPGSA,A,3,01,02,03,04,05,06,07,,,,,,1.5,1.0,1.2*34''
          dgps_start = Inr (True, st')
        \<and> Satellites (mySituation st') = 8"
proof -
  let ?l = "''$GPGSA,A,3,01,02,03,04,05,06,07,,,,,,1.5,1.0,1.2*34''"
  let ?p = "''GPGSA,A,3,01,02,03,04,05,06,07,,,,,,1.5,1.0,1.2''"
  obtain st' where acc: "processNMEALine exact_lib ?l dgps_start = Inr (True, st')"
    using gsa_seven_accepted by blast
  have v: "validateNMEAChecksum ?l = Inr ?p"
    by (simp add: codec_defs Let_def)
  have h: "Split ?p (CHR '','') ! 0 = ''GNGSA'' \<or> Split ?p (CHR '','') ! 0 = ''GPGSA''"
    by simp
  have ids: "List.map_filter Atoi (take 12 (drop 3 (Split ?p (CHR '','')))) = [1, 2, 3, 4, 5, 6, 7]"
    by (simp add: map_filter_simps strconv_defs)
  have "Satellites (mySituation st') = 8"
    using gsa_satellites_count [OF v refl h acc ids [symmetric] refl refl]
    by (simp add: dgps_start_def initRY835AI_def SituationData_zero_def)
  with acc show ?thesis by blast
qed

text \<open>
  The claim as stated fails in two ways. At quality 2, a sentence with the GLONASS
  numbers 65 and 66 and no SBAS number leaves \<open>Satellites = 2\<close>, not 3. And with 13
  satellites in the solution and 13 tracked, a sentence with twelve numbers leaves
  \<open>Satellites = 13\<close>, although the count in the message is at most 12 and the tracked
  count at most 13.
\<close>

theorem gsa_satellites_counterexample:
  "map_sum id (\<lambda>(ok, st'). (ok, Satellites (mySituation st')))
     (processNMEALine exact_lib ''$GNGSA,A,3,65,66,,,,,,,,,,,1.5,1.0,1.2*29'' dgps_start)
     = Inr (True, 2)
   \<and> map_sum id (\<lambda>(ok, st'). (ok, Satellites (mySituation st')))
     (processNMEALine exact_lib ''$GPGSA,A,3,01,02,03,04,05,06,07,08,09,10,11,12,1.5,1.0,1.2*37''
        thirteen_in_solution)
     = Inr (True, 13)"
  by (simp add: processNMEALine_def codec_defs strconv_defs gsa_defs satellite_defs
      exact_lib_defs Let_def dgps_start_def thirteen_in_solution_def initRY835AI_def
      SituationData_zero_def calculateNACp_def word_sless_alt)

subsection \<open>Rejected sentences\<close>

text \<open>
  A line whose checksum does not validate is rejected and changes nothing, the record of
  the last valid sentence included.
\<close>

theorem processNMEALine_invalid_checksum:
  assumes "validateNMEAChecksum l = Inl e"
  shows "processNMEALine L l st = Inr (False, st)"
  using assms by (simp add: processNMEALine_def)

theorem processNMEALine_invalid_checksum_witness:
  "validateNMEAChecksum ''$GPGGA,garbled*00'' = Inl (Checksum_failed 0x01 0)
   \<and> processNMEALine exact_lib ''$GPGGA,garbled*00'' sbas_fix = Inr (False, sbas_fix)"
proof -
  have v: "validateNMEAChecksum ''$GPGGA,garbled*00'' = Inl (Checksum_failed 0x01 0)"
    by (simp add: codec_defs Let_def)
  from processNMEALine_invalid_checksum [OF v] v show ?thesis by simp
qed

lemma commit_False: "commit st tmp = (False, st') \<Longrightarrow> st' = st"
  by (simp add: commit_def split: option.splits)

lemma pubx04_False: "pubx04 L x st = Inr (False, st') \<Longrightarrow> st' = st"
  by (simp add: pubx04_def split: sum.splits option.splits if_splits prod.splits)

text \<open>
  The part of claim C1 that the code keeps. A checksum-valid sentence that is rejected,
  and is neither a \<open>PUBX,03\<close>, a \<open>GSA\<close> nor a \<open>GSV\<close> sentence, leaves the state as it was but
  for \<open>LastValidNMEAMessageTime\<close> and \<open>LastValidNMEAMessage\<close>: the handlers of \<open>PUBX,00\<close>,
  \<open>VTG\<close>, \<open>GGA\<close> and \<open>RMC\<close> drop their copy, and the \<open>PUBX,04\<close> handler writes only once all
  its fields have parsed.
\<close>

theorem processNMEALine_rejected_unchanged:
  assumes "validateNMEAChecksum l = Inr p" and "x = Split p (CHR '','')"
    and "x ! 0 = ''PUBX'' \<and> index x 1 \<noteq> Inr ''03''
         \<or> x ! 0 \<noteq> ''PUBX'' \<and> x ! 0 \<noteq> ''GNGSA'' \<and> x ! 0 \<noteq> ''GPGSA''
            \<and> x ! 0 \<noteq> ''GPGSV'' \<and> x ! 0 \<noteq> ''GLGSV''"
    and "processNMEALine L l st = Inr (False, st')"
  shows "st' = st\<lparr>mySituation := (mySituation st)
                  \<lparr>LastValidNMEAMessageTime := stratuxClock_Time st,
                   LastValidNMEAMessage := l\<rparr>\<rparr>"
  using assms
  by (auto simp add: processNMEALine_def Let_def pubx00_def vtg_def gga_def rmc_def
      split: sum.splits if_splits dest: commit_False pubx04_False)

text \<open>
  A \<open>GGA\<close> sentence whose quality field is not a number is rejected; only the record of
  the last valid sentence changes.
\<close>

theorem processNMEALine_rejected_unchanged_witness:
  "processNMEALine exact_lib ''$GPGGA,123519,4807.038,N,01131.000,E,x,08,0.9,545.4,M,46.9,M,,*0E''
     sbas_fix =
     Inr (False,
       sbas_fix\<lparr>mySituation := (mySituation sbas_fix)
         \<lparr>LastValidNMEAMessageTime := stratuxClock_Time sbas_fix,
          LastValidNMEAMessage :=
            ''$GPGGA,123519,4807.038,N,01131.000,E,x,08,0.9,545.4,M,46.9,M,,*0E''\<rparr>\<rparr>)"
proof -
  let ?l = "''$GPGGA,123519,4807.038,N,01131.000,E,x,08,0.9,545.4,M,46.9,M,,*0E''"
  let ?p = "''GPGGA,123519,4807.038,N,01131.000,E,x,08,0.9,545.4,M,46.9,M,,''"
  have v: "validateNMEAChecksum ?l = Inr ?p"
    by (simp add: codec_defs Let_def)
  have h: "Split ?p (CHR '','') ! 0 = ''PUBX'' \<and> index (Split ?p (CHR '','')) 1 \<noteq> Inr ''03''
         \<or> Split ?p (CHR '','') ! 0 \<noteq> ''PUBX'' \<and> Split ?p (CHR '','') ! 0 \<noteq> ''GNGSA''
            \<and> Split ?p (CHR '','') ! 0 \<noteq> ''GPGSA''
            \<and> Split ?p (CHR '','') ! 0 \<noteq> ''GPGSV'' \<and> Split ?p (CHR '','') ! 0 \<noteq> ''GLGSV''"
    by simp
  obtain st' where r: "processNMEALine exact_lib ?l sbas_fix = Inr (False, st')"
    by (simp add: processNMEALine_def codec_defs strconv_defs gga_def gga_fields_def commit_def
        Let_def)
  from processNMEALine_rejected_unchanged [OF v refl h r] r show ?thesis by simp
qed

subsection \<open>One entry per key\<close>

lemma updateConstellation_distinct:
  assumes "distinct (map fst (Satellites_map st))"
  shows "distinct (map fst (Satellites_map (updateConstellation st)))"
proof -
  have "map fst (Satellites_map (updateConstellation st))
      = map fst (filter (\<lambda>(k, s). fresh st s) (Satellites_map st))"
    by (simp add: updateConstellation_map [OF assms] case_prod_unfold comp_def)
  then show ?thesis using assms by (simp add: distinct_map_filter)
qed

lemma store_satellite_distinct:
  assumes "distinct (map fst (Satellites_map st))"
  shows "distinct (map fst (Satellites_map (store_satellite r st)))"
  unfolding store_satellite_def
  by (rule updateConstellation_distinct) (simp add: assms distinct_update)

lemma gsa_loop_distinct:
  "distinct (map fst (Satellites_map st)) \<Longrightarrow>
   distinct (map fst (Satellites_map (fst (gsa_loop fs st c))))"
proof (induction fs arbitrary: st c)
  case Nil
  then show ?case by (cases c) simp
next
  case (Cons f fs)
  obtain sat svSBAS svGLONASS where c: "c = (sat, svSBAS, svGLONASS)" by (cases c)
  show ?case
  proof (cases "Atoi f")
    case None
    then show ?thesis using Cons by (simp add: c)
  next
    case (Some sv)
    have "distinct (map fst (Satellites_map (gsa_satellite sv st)))"
      using Cons.prems by (simp add: gsa_satellite_def Let_def store_satellite_distinct
          split: prod.splits)
    then show ?thesis using Some Cons.IH by (simp add: c)
  qed
qed

lemma gsv_loop_distinct:
  "distinct (map fst (Satellites_map st)) \<Longrightarrow>
   distinct (map fst (Satellites_map (snd (gsv_loop x ns st))))"
proof (induction ns arbitrary: st)
  case Nil
  then show ?case by simp
next
  case (Cons i ns)
  show ?case
  proof (cases "Atoi (x ! (4 + 4 * i))")
    case None
    then show ?thesis using Cons.prems by simp
  next
    case (Some sv)
    then show ?thesis
      using Cons.prems Cons.IH by (simp add: gsv_satellite_def store_satellite_distinct)
  qed
qed

lemma pubx03_loop_distinct:
  "distinct (map fst (Satellites_map st)) \<Longrightarrow> pubx03_loop x n i st = Inr (ok, st') \<Longrightarrow>
   distinct (map fst (Satellites_map st'))"
proof (induction x n i st rule: pubx03_loop.induct)
  case (1 x satTracked i st)
  show ?case
  proof (cases "i < satTracked")
    case False
    then show ?thesis using "1.prems" by (simp add: pubx03_loop.simps)
  next
    case True
    show ?thesis
    proof (cases "pubx03_block x i st")
      case (Inl e)
      then show ?thesis using True "1.prems" by (simp add: pubx03_loop.simps)
    next
      case (Inr r)
      show ?thesis
      proof (cases r)
        case None
        then show ?thesis using True Inr "1.prems" by (simp add: pubx03_loop.simps)
      next
        case (Some st1)
        have "distinct (map fst (Satellites_map st1))"
          using Inr Some "1.prems"(1)
          by (auto simp add: pubx03_block_def pubx03_satellite_def store_satellite_distinct
              split: sum.splits option.splits)
        moreover have "pubx03_loop x satTracked (i + 1) st1 = Inr (ok, st')"
          using True Inr Some "1.prems"(2) by (simp add: pubx03_loop.simps)
        ultimately show ?thesis
          using "1.IH" [OF True Inr Some] by simp
      qed
    qed
  qed
qed

lemma commit_map: "commit st tmp = (ok, st') \<Longrightarrow> Satellites_map st' = Satellites_map st"
  by (auto simp add: commit_def split: option.splits)

lemma pubx04_map: "pubx04 L x st = Inr (ok, st') \<Longrightarrow> Satellites_map st' = Satellites_map st"
  by (auto simp add: pubx04_def split: sum.splits option.splits if_splits prod.splits)

text \<open>
  The satellite map keeps one entry per key: whatever line \<open>processNMEALine\<close> is given,
  if the keys of the map were distinct before the call they are distinct after it.
\<close>

theorem processNMEALine_keys_distinct:
  assumes "distinct (map fst (Satellites_map st))"
    and "processNMEALine L l st = Inr (ok, st')"
  shows "distinct (map fst (Satellites_map st'))"
proof (cases "validateNMEAChecksum l")
  case (Inl e)
  then show ?thesis using assms by (simp add: processNMEALine_def)
next
  case (Inr p)
  define x where "x = Split p (CHR '','')"
  define st1 where "st1 = st\<lparr>mySituation := (mySituation st)
      \<lparr>LastValidNMEAMessageTime := stratuxClock_Time st, LastValidNMEAMessage := l\<rparr>\<rparr>"
  have d1: "distinct (map fst (Satellites_map st1))"
    using assms(1) by (simp add: st1_def)
  have gsa_d: "gsa L x st1 = (ok, st') \<Longrightarrow> ?thesis"
  proof -
    assume g: "gsa L x st1 = (ok, st')"
    obtain st2 c where loop: "gsa_loop (take 12 (drop 3 x)) st1 (0, False, False) = (st2, c)"
      by (cases "gsa_loop (take 12 (drop 3 x)) st1 (0, False, False)")
    have "distinct (map fst (Satellites_map st2))"
      using gsa_loop_distinct [OF d1, of "take 12 (drop 3 x)" "(0, False, False)"] loop by simp
    then show ?thesis
      using g d1 loop
      by (auto simp add: gsa_def Let_def split: if_splits prod.splits dest: commit_map)
  qed
  have gsv_d: "gsv x st1 = (ok, st') \<Longrightarrow> ?thesis"
    using gsv_loop_distinct [OF d1, of x "[0 ..< (length x - 4) div 4]"] d1
    by (auto simp add: gsv_def Let_def split: if_splits option.splits)
  have pubx03_d: "pubx03 x st1 = Inr (ok, st') \<Longrightarrow> ?thesis"
    using d1
    by (auto simp add: pubx03_def split: if_splits option.splits
        dest!: pubx03_loop_distinct [rotated])
  have other: "st' = st1 \<Longrightarrow> ?thesis"
    using d1 by simp
  from assms(2) show ?thesis
    using gsa_d gsv_d pubx03_d d1
    by (auto simp add: processNMEALine_def Inr Let_def x_def [symmetric] st1_def [symmetric]
        pubx00_def vtg_def gga_def rmc_def
        split: sum.splits if_splits dest: commit_map pubx04_map)
qed

theorem processNMEALine_keys_distinct_witness:
  "distinct (map fst (Satellites_map sbas_fix))
   \<and> (\<exists>st'. processNMEALine exact_lib ''$GPGSV,1,1,01,46,30,180,10*41'' sbas_fix = Inr (True, st')
          \<and> distinct (map fst (Satellites_map st')))"
proof -
  have d: "distinct (map fst (Satellites_map sbas_fix))"
    by (simp add: sbas_fix_def)
  obtain st' where r: "processNMEALine exact_lib ''$GPGSV,1,1,01,46,30,180,10*41'' sbas_fix
      = Inr (True, st')"
    by (simp add: processNMEALine_def codec_defs strconv_defs gsv_defs satellite_defs Let_def
        sbas_fix_def SituationData_zero_def word_sless_alt)
  from processNMEALine_keys_distinct [OF d r] d r show ?thesis by blast
qed

end
